theory Spec2Isabelle
  imports
    Main
    "HOL-Library.Word"
    "HOL-Library.AList"
    "HOL-Library.Char_ord"
    "HOL-Library.List_Lexorder"
    "HOL-Library.Multiset"
begin

section \<open>Conversation model (pkg/llm/message.go)\<close>

text \<open>
  Go's \<^verbatim>\<open>int64\<close> and (on the 64-bit targets the program is built for) \<^verbatim>\<open>int\<close> are
  64-bit words: \<open>+\<close> and \<open>-\<close> wrap, and the program's comparisons read them as signed
  numbers (\<open>sint\<close>). A \<^verbatim>\<open>json.RawMessage\<close> and a Go string are byte strings.
\<close>

type_synonym int64 = "64 word"

type_synonym MessageRole = string

definition RoleAssistant :: MessageRole where
  "RoleAssistant = ''assistant''"

definition RoleUser :: MessageRole where
  "RoleUser = ''user''"

record TokenUsage =
  InputTokens :: int64
  OutputTokens :: int64
  CacheCreationTokens :: int64
  CacheReadTokens :: int64

definition zeroUsage :: TokenUsage where
  "zeroUsage = \<lparr>InputTokens = 0, OutputTokens = 0, CacheCreationTokens = 0, CacheReadTokens = 0\<rparr>"

definition Total :: "TokenUsage \<Rightarrow> int64" where
  "Total ts = InputTokens ts + OutputTokens ts + CacheCreationTokens ts + CacheReadTokens ts"

text \<open>The closed set of content parts: the structs that implement \<^verbatim>\<open>isPart\<close>.
  \<open>ToolCall id name input\<close>, \<open>ToolResult toolCallID toolName content isError\<close>.\<close>

datatype ContentPart =
    TextContent string
  | ToolCall string string string
  | ToolResult string string string bool

record Message =
  Role :: MessageRole
  Parts :: "ContentPart list"
  Usage :: TokenUsage

definition NewUserMessage :: "ContentPart list \<Rightarrow> Message" where
  "NewUserMessage parts = \<lparr>Role = RoleUser, Parts = parts, Usage = zeroUsage\<rparr>"

section \<open>Result types, reflection and schemas\<close>

text \<open>
  The agent and its tool belt are generic in the result type \<^verbatim>\<open>ResultT\<close>. The model
  carries what the code asks of that type in a dictionary: the Go type itself (for
  \<^verbatim>\<open>reflect\<close> and the schema reflector), the zero value, and the two calls of
  \<^verbatim>\<open>json.Unmarshal\<close> that \<^verbatim>\<open>finalResult\<close> makes (into \<^verbatim>\<open>ResultT\<close>, and into
  \<^verbatim>\<open>finalResultPrimitiveInput[ResultT]\<close> followed by reading \<^verbatim>\<open>.Response\<close>);
  \<open>Inl\<close> is the error text. \<^verbatim>\<open>encoding/json\<close> and the schema reflector are libraries
  outside the repository: the decoders are parameters, and a schema is identified
  with the Go type it was reflected from.
\<close>

datatype GoType =
    TBool | TInt | TFloat64 | TString
  | TSlice GoType
  | TMap GoType GoType
  | TPointer GoType
  | TStruct "(string \<times> GoType) list"
  | TInterface

datatype Kind =
  KBool | KInt | KFloat64 | KString | KSlice | KMap | KPointer | KStruct | KInterface

fun KindOf :: "GoType \<Rightarrow> Kind" where
  "KindOf TBool = KBool"
| "KindOf TInt = KInt"
| "KindOf TFloat64 = KFloat64"
| "KindOf TString = KString"
| "KindOf (TSlice _) = KSlice"
| "KindOf (TMap _ _) = KMap"
| "KindOf (TPointer _) = KPointer"
| "KindOf (TStruct _) = KStruct"
| "KindOf TInterface = KInterface"

text \<open>\<^verbatim>\<open>reflect.TypeOf(val)\<close> for \<^verbatim>\<open>var val ResultT\<close>: the dynamic type of the zero
  value. The zero value of an interface type is nil and has no dynamic type, so the
  result is the nil \<^verbatim>\<open>reflect.Type\<close>; the zero value of every other type (a nil
  pointer, slice or map included) carries its static type.\<close>

fun TypeOfZero :: "GoType \<Rightarrow> GoType option" where
  "TypeOfZero TInterface = None"
| "TypeOfZero t = Some t"

datatype Panic = NilDereference | SliceBoundsOutOfRange

datatype Schema = Reflect GoType

record 'r ResultT =
  goType :: GoType
  zero :: 'r
  unmarshal :: "string \<Rightarrow> string + 'r"
  unmarshalPrimitive :: "string \<Rightarrow> string + 'r"

definition GenerateSchema :: "GoType \<Rightarrow> Schema" where
  "GenerateSchema t = Reflect t"

text \<open>\<^verbatim>\<open>structResultType\<close>: calling \<^verbatim>\<open>.Kind()\<close> on the nil \<^verbatim>\<open>reflect.Type\<close> panics.\<close>

definition structResultType :: "'r ResultT \<Rightarrow> Panic + bool" where
  "structResultType T =
     (case TypeOfZero (goType T) of
        None \<Rightarrow> Inl NilDereference
      | Some ty \<Rightarrow> Inr (KindOf ty = KStruct))"

section \<open>Tool registry (pkg/tool)\<close>

record ToolDefinition =
  Name :: string
  Description :: string
  Schema :: "Schema option"

text \<open>A tool's \<^verbatim>\<open>UseFunc\<close> is either the belt's own \<^verbatim>\<open>finalResult\<close> method, which writes
  to the agent, or a function supplied by the caller, which maps the raw input to an
  output text (\<open>Inr\<close>) or an error text (\<open>Inl\<close>) and cannot reach the agent.\<close>

datatype UseFunc = BeltFinalResult | Func "string \<Rightarrow> string + string"

record Definition =
  ToolDef :: ToolDefinition
  UseFunc :: UseFunc

text \<open>\<^verbatim>\<open>map[string]Definition\<close> as an association list with unique keys; the order of
  the pairs has no meaning (\<^verbatim>\<open>LLMDefinitions\<close> sorts the keys).\<close>

record Belt =
  toolDefinitions :: "(string \<times> Definition) list"

definition FinalResultToolName :: string where
  "FinalResultToolName = ''FinalResult''"

definition finalResultDescription :: string where
  "finalResultDescription = ''The final response which ends this conversation''"

definition finalResultPrimitiveInput :: "GoType \<Rightarrow> GoType" where
  "finalResultPrimitiveInput t = TStruct [(''response'', t)]"

definition reservedFinalResult :: "Schema \<Rightarrow> Definition" where
  "reservedFinalResult s =
     \<lparr>ToolDef = \<lparr>Name = FinalResultToolName, Description = finalResultDescription,
                  Schema = Some s\<rparr>,
      UseFunc = BeltFinalResult\<rparr>"

definition registerTool :: "Definition \<Rightarrow> (string \<times> Definition) list \<Rightarrow> (string \<times> Definition) list" where
  "registerTool d m =
     AList.update (Name (ToolDef d)) \<lparr>ToolDef = ToolDef d, UseFunc = UseFunc d\<rparr> m"

definition NewBelt :: "'r ResultT \<Rightarrow> Definition list \<Rightarrow> Panic + Belt" where
  "NewBelt T tools =
     (let finalResultSchema = GenerateSchema (finalResultPrimitiveInput (goType T)) in
      case structResultType T of
        Inl p \<Rightarrow> Inl p
      | Inr isStruct \<Rightarrow>
          (let finalResultSchema' =
                 (if isStruct then GenerateSchema (goType T) else finalResultSchema)
           in Inr \<lparr>toolDefinitions =
                     fold registerTool tools
                       [(FinalResultToolName, reservedFinalResult finalResultSchema')]\<rparr>))"

text \<open>\<^verbatim>\<open>tb.toolDefinitions[name]\<close> with its \<^verbatim>\<open>ok\<close> flag.\<close>

definition resolve :: "Belt \<Rightarrow> string \<Rightarrow> Definition option" where
  "resolve tb name = map_of (toolDefinitions tb) name"

definition zeroToolDefinition :: ToolDefinition where
  "zeroToolDefinition = \<lparr>Name = [], Description = [], Schema = None\<rparr>"

definition LLMDefinitions :: "Belt \<Rightarrow> ToolDefinition list" where
  "LLMDefinitions tb =
     map (\<lambda>name. case resolve tb name of
                    None \<Rightarrow> zeroToolDefinition
                  | Some tool \<Rightarrow> ToolDef tool)
         (sort (map fst (toolDefinitions tb)))"

definition FinalResultDefinition :: "Belt \<Rightarrow> ToolDefinition" where
  "FinalResultDefinition tb =
     (case resolve tb FinalResultToolName of
        None \<Rightarrow> zeroToolDefinition
      | Some d \<Rightarrow> ToolDef d)"

section \<open>The world outside the agent\<close>

text \<open>
  What the agent reads from and writes to its environment is one explicit state:
  \<^item> the clock: \<open>now\<close>, and the time that passes before each later reading
    (\<^verbatim>\<open>time.Now()\<close> is monotonic: a reading is never smaller than an earlier one);
  \<^item> the scheduler: \<open>picks\<close> decides, one number per finished tool call, which of the
    goroutines still running is the next to send its result;
  \<^item> the requests the model provider has received so far;
  \<^item> the files, and the paths at which \<^verbatim>\<open>os.Create\<close> succeeds;
  \<^item> the process-wide \<^verbatim>\<open>agentCounter\<close> and the source of \<^verbatim>\<open>uuid.New()\<close>.
  A time is counted from the zero \<^verbatim>\<open>time.Time\<close>, so \<^verbatim>\<open>IsZero\<close> is \<open>t = 0\<close>.
  The logger is not modelled: log lines are not part of any state below.
\<close>

record NewMessageParams =
  SystemPrompt :: string
  ToolDefinitions :: "ToolDefinition list"
  History :: "Message list"
  EnableCaching :: bool

text \<open>\<^verbatim>\<open>llm.Provider\<close>: the answer to a request may depend on how many requests came
  before it (a provider is stateful). \<open>Inl\<close> is the error of \<^verbatim>\<open>NewMessage\<close>.\<close>

type_synonym Provider = "nat \<Rightarrow> NewMessageParams \<Rightarrow> string + Message"

datatype 'b File = Absent | Unreadable | Stored 'b

record 'b World =
  now :: nat
  elapsed :: "nat list"
  picks :: "nat list"
  requests :: "NewMessageParams list"
  files :: "string \<Rightarrow> 'b File"
  creatable :: "string \<Rightarrow> bool"
  agentCounter :: int64
  uuids :: "nat \<Rightarrow> string"
  uuidsDrawn :: nat

definition timeNow :: "'b World \<Rightarrow> nat \<times> 'b World" where
  "timeNow w =
     (case elapsed w of
        [] \<Rightarrow> (now w, w)
      | d # ds \<Rightarrow> (now w + d, w\<lparr>now := now w + d, elapsed := ds\<rparr>))"

definition uuidNew :: "'b World \<Rightarrow> string \<times> 'b World" where
  "uuidNew w = (uuids w (uuidsDrawn w), w\<lparr>uuidsDrawn := Suc (uuidsDrawn w)\<rparr>)"

definition NewMessage :: "Provider \<Rightarrow> NewMessageParams \<Rightarrow> 'b World \<Rightarrow> (string + Message) \<times> 'b World" where
  "NewMessage provider params w =
     (provider (length (requests w)) params, w\<lparr>requests := requests w @ [params]\<rparr>)"

text \<open>
  \<^verbatim>\<open>encoding/gob\<close>, a library outside the repository. A value in an interface-typed
  place (here a part of a message) can be encoded and decoded only when its concrete
  type is registered, so both calls take the registered types. \<open>Encode\<close> gives the
  bytes written and the error, if any; \<open>Decode\<close> decodes into the value the
  destination holds already.
\<close>

datatype GobType = GobMessage | GobTextContent | GobToolCall | GobToolResult | GobTokenUsage

fun concreteType :: "ContentPart \<Rightarrow> GobType" where
  "concreteType (TextContent _) = GobTextContent"
| "concreteType (ToolCall _ _ _) = GobToolCall"
| "concreteType (ToolResult _ _ _ _) = GobToolResult"

record 'b Gob =
  Encode :: "GobType list \<Rightarrow> Message list \<Rightarrow> 'b \<times> string option"
  Decode :: "GobType list \<Rightarrow> 'b \<Rightarrow> Message list \<Rightarrow> string + Message list"

section \<open>The agent (pkg/core/agent.go)\<close>

text \<open>A failure is an error that \<^verbatim>\<open>NewAgent\<close>, \<^verbatim>\<open>runTurn\<close> or \<^verbatim>\<open>Run\<close> returns, or a
  panic. The error of \<^verbatim>\<open>saveSession\<close> is only logged and has a type of its own.
  \<^verbatim>\<open>maxToolLogLength\<close> is only compared with lengths and halved, never added to, so it
  is an unbounded integer here.\<close>

datatype Failure =
    Panicked Panic
  | ErrNewLLMMessage string
  | ErrMaxTokenUsage int64 int64
  | ErrOpenFile
  | ErrGobDecode string
  | ErrNewProvider string

datatype SaveError = ErrCreateFile | ErrGobEncode string

record 'r Agent =
  systemPrompt :: string
  llm :: Provider
  sessionFilePath :: string
  maxToolLogLength :: int
  toolBelt :: Belt
  llmMessages :: "Message list"
  llmUsage :: TokenUsage
  agentNum :: int64
  maxTokenUsage :: int64
  timeboxedUntil :: nat
  cacheBust :: bool
  finalResult :: 'r
  finalResultSet :: bool

record 'r RunResult =
  Data :: 'r
  TotalUsage :: TokenUsage
  Messages :: "Message list"

definition SetFinalResult :: "'r \<Rightarrow> 'r Agent \<Rightarrow> 'r Agent" where
  "SetFinalResult v agent = agent\<lparr>finalResult := v, finalResultSet := True\<rparr>"

definition addUserPrompt :: "string \<Rightarrow> 'r Agent \<Rightarrow> 'r Agent" where
  "addUserPrompt prompt agent =
     agent\<lparr>llmMessages := llmMessages agent @ [NewUserMessage [TextContent prompt]]\<rparr>"

definition systemReminder :: "string \<Rightarrow> Message" where
  "systemReminder content =
     NewUserMessage [TextContent (''<system-reminder>'' @ content @ ''</system-reminder>'')]"

definition addSystemReminder :: "string \<Rightarrow> 'r Agent \<Rightarrow> 'r Agent" where
  "addSystemReminder content agent =
     agent\<lparr>llmMessages := llmMessages agent @ [systemReminder content]\<rparr>"

definition addUsageTo :: "TokenUsage \<Rightarrow> TokenUsage \<Rightarrow> TokenUsage" where
  "addUsageTo u acc =
     \<lparr>InputTokens = InputTokens acc + InputTokens u,
      OutputTokens = OutputTokens acc + OutputTokens u,
      CacheCreationTokens = CacheCreationTokens acc + CacheCreationTokens u,
      CacheReadTokens = CacheReadTokens acc + CacheReadTokens u\<rparr>"

text \<open>\<^verbatim>\<open>updateUsage\<close>: the counters are updated first; the error, if any, is returned
  with the updated agent.\<close>

definition updateUsage :: "TokenUsage \<Rightarrow> 'r Agent \<Rightarrow> Failure option \<times> 'r Agent" where
  "updateUsage u agent =
     (let agent' = agent\<lparr>llmUsage := addUsageTo u (llmUsage agent)\<rparr> in
      if 0 <s maxTokenUsage agent' then
        (let totalUsage = Total (llmUsage agent') in
         if maxTokenUsage agent' <s totalUsage
         then (Some (ErrMaxTokenUsage totalUsage (maxTokenUsage agent')), agent')
         else (None, agent'))
      else (None, agent'))"

section \<open>Using tools (pkg/tool, pkg/core/run_turn.go)\<close>

text \<open>What a \<^verbatim>\<open>UseFunc\<close> call does: it returns an output, returns an error, or panics.\<close>

datatype CallResult = Returned string | Failed string | Panics Panic

definition finalResultCall :: "'r ResultT \<Rightarrow> string \<Rightarrow> 'r Agent \<Rightarrow> CallResult \<times> 'r Agent" where
  "finalResultCall T llmInput agent =
     (case structResultType T of
        Inl p \<Rightarrow> (Panics p, agent)
      | Inr isStruct \<Rightarrow>
          (if \<not> isStruct then
             (case unmarshalPrimitive T llmInput of
                Inl err \<Rightarrow> (Failed (''unmarshal input: '' @ err), agent)
              | Inr response \<Rightarrow>
                  (Returned ''Final result processed.'', SetFinalResult response agent))
           else
             (case unmarshal T llmInput of
                Inl err \<Rightarrow> (Failed (''unmarshal input: '' @ err), agent)
              | Inr input \<Rightarrow>
                  (Returned ''Final result processed.'', SetFinalResult input agent))))"

text \<open>\<^verbatim>\<open>Belt.UseTool\<close>, on the belt of the agent (the belt's \<^verbatim>\<open>agent\<close> field points
  back to the agent that owns it).\<close>

definition UseTool :: "'r ResultT \<Rightarrow> string \<Rightarrow> string \<Rightarrow> 'r Agent \<Rightarrow> CallResult \<times> 'r Agent" where
  "UseTool T name input agent =
     (case resolve (toolBelt agent) name of
        None \<Rightarrow> (Failed (''unknown tool: '' @ name), agent)
      | Some toolFunc \<Rightarrow>
          (case UseFunc toolFunc of
             BeltFinalResult \<Rightarrow> finalResultCall T input agent
           | Func f \<Rightarrow>
               (case f input of
                  Inl err \<Rightarrow> (Failed err, agent)
                | Inr res \<Rightarrow> (Returned res, agent))))"

text \<open>Go's \<^verbatim>\<open>/\<close> on integers truncates towards zero.\<close>

definition goDiv :: "int \<Rightarrow> int \<Rightarrow> int" where
  "goDiv a b = sgn a * sgn b * (\<bar>a\<bar> div \<bar>b\<bar>)"

text \<open>\<^verbatim>\<open>truncateLog\<close> computes what is logged; slicing a string with a negative bound,
  or a bound beyond its length, panics.\<close>

definition truncateLog :: "'r Agent \<Rightarrow> string \<Rightarrow> Panic + string" where
  "truncateLog agent s =
     (if int (length s) \<le> maxToolLogLength agent then Inr s
      else
        (let half = goDiv (maxToolLogLength agent) 2 in
         if half < 0 \<or> int (length s) < half then Inl SliceBoundsOutOfRange
         else Inr (take (nat half) s @ ''...'' @ drop (length s - nat half) s)))"

definition timeboxExpired :: "'r Agent \<Rightarrow> 'b World \<Rightarrow> bool \<times> 'b World" where
  "timeboxExpired agent w =
     (if timeboxedUntil agent = 0 then (False, w)
      else (let (t, w') = timeNow w in (timeboxedUntil agent < t, w')))"

record toolUseParams =
  tuID :: string
  tuName :: string
  tuInput :: string

definition useTool ::
  "'r ResultT \<Rightarrow> toolUseParams \<Rightarrow> 'r Agent \<Rightarrow> 'b World \<Rightarrow> (Panic + ContentPart) \<times> 'r Agent \<times> 'b World" where
  "useTool T t agent w =
     (let (expired, w') = timeboxExpired agent w in
      if expired \<and> tuName t \<noteq> FinalResultToolName then
        (Inr (ToolResult (tuID t) (tuName t) ''timebox expired, cannot use tool'' True), agent, w')
      else
        (case UseTool T (tuName t) (tuInput t) agent of
           (Panics p, agent') \<Rightarrow> (Inl p, agent', w')
         | (Failed err, agent') \<Rightarrow>
             (case truncateLog agent' err of
                Inl p \<Rightarrow> (Inl p, agent', w')
              | Inr _ \<Rightarrow> (Inr (ToolResult (tuID t) (tuName t) err True), agent', w'))
         | (Returned res, agent') \<Rightarrow>
             (case truncateLog agent' res of
                Inl p \<Rightarrow> (Inl p, agent', w')
              | Inr _ \<Rightarrow> (Inr (ToolResult (tuID t) (tuName t) res False), agent', w'))))"

text \<open>
  The goroutines of one turn run \<^verbatim>\<open>useTool\<close> concurrently and send their results on
  one unbuffered channel; \<^verbatim>\<open>runTurn\<close> appends the results as it receives them. The
  model runs the calls one after the other in the order in which they finish, and
  that order is the scheduler's: each pick names, among the calls still running, the
  next one to finish (calls left when the picks run out finish in dispatch order).
\<close>

fun completionOrder :: "nat list \<Rightarrow> 'a list \<Rightarrow> 'a list" where
  "completionOrder [] xs = xs"
| "completionOrder (p # ps) xs =
     (if xs = [] then []
      else (let i = p mod length xs
            in xs ! i # completionOrder ps (take i xs @ drop (Suc i) xs)))"

fun useTools ::
  "'r ResultT \<Rightarrow> toolUseParams list \<Rightarrow> 'r Agent \<Rightarrow> 'b World \<Rightarrow> (Panic + ContentPart list) \<times> 'r Agent \<times> 'b World" where
  "useTools T [] agent w = (Inr [], agent, w)"
| "useTools T (t # ts) agent w =
     (case useTool T t agent w of
        (Inl p, agent', w') \<Rightarrow> (Inl p, agent', w')
      | (Inr r, agent', w') \<Rightarrow>
          (case useTools T ts agent' w' of
             (Inl p, agent'', w'') \<Rightarrow> (Inl p, agent'', w'')
           | (Inr rs, agent'', w'') \<Rightarrow> (Inr (r # rs), agent'', w'')))"

fun toolUsesOf :: "ContentPart list \<Rightarrow> toolUseParams list" where
  "toolUsesOf [] = []"
| "toolUsesOf (ToolCall i n inp # parts) =
     \<lparr>tuID = i, tuName = n, tuInput = inp\<rparr> # toolUsesOf parts"
| "toolUsesOf (_ # parts) = toolUsesOf parts"

definition timeboxReminder :: string where
  "timeboxReminder =
     ''Your timebox has been exceeded. DO NOT mention the timebox to the user. '' @
     ''You can only call the FinalResult tool, not any other tools. '' @
     ''Please call the FinalResult tool to return the final result based on your current knowledge.''"

definition dispatch ::
  "'r ResultT \<Rightarrow> toolUseParams list \<Rightarrow> 'r Agent \<Rightarrow> 'b World \<Rightarrow> (Panic + ContentPart list) \<times> 'r Agent \<times> 'b World" where
  "dispatch T toolUses agent w =
     (let k = length toolUses in
      useTools T (completionOrder (take k (picks w)) toolUses) agent
        (w\<lparr>picks := drop k (picks w)\<rparr>))"

text \<open>
  \<^verbatim>\<open>runTurn\<close>, in the three steps of its body: \<open>offerTools\<close> chooses the tool list
  and, past the timebox, appends the reminder; the provider is asked for the next
  message; \<open>processMessage\<close> appends the message, updates the usage, dispatches the
  tool calls and appends their results. The result is the \<^verbatim>\<open>finished\<close> flag or the
  failure, with the agent and the world as the turn leaves them.
\<close>

definition offerTools :: "'r Agent \<Rightarrow> 'b World \<Rightarrow> ToolDefinition list \<times> 'r Agent \<times> 'b World" where
  "offerTools agent w =
     (let toolDefs = LLMDefinitions (toolBelt agent);
          (expired, w') = timeboxExpired agent w
      in if expired
         then ([FinalResultDefinition (toolBelt agent)],
               addSystemReminder timeboxReminder agent, w')
         else (toolDefs, agent, w'))"

definition processMessage ::
  "'r ResultT \<Rightarrow> Message \<Rightarrow> 'r Agent \<Rightarrow> 'b World \<Rightarrow> (Failure + bool) \<times> 'r Agent \<times> 'b World" where
  "processMessage T message agent w =
     (case updateUsage (Usage message)
             (agent\<lparr>llmMessages := llmMessages agent @ [message]\<rparr>) of
        (Some err, agent1) \<Rightarrow> (Inl err, agent1, w)
      | (None, agent1) \<Rightarrow>
          (case dispatch T (toolUsesOf (Parts message)) agent1 w of
             (Inl p, agent2, w') \<Rightarrow> (Inl (Panicked p), agent2, w')
           | (Inr toolResults, agent2, w') \<Rightarrow>
               (let agent3 =
                      (if 0 < length toolResults
                       then agent2\<lparr>llmMessages :=
                              llmMessages agent2 @ [NewUserMessage toolResults]\<rparr>
                       else agent2)
                in (Inr (length toolResults = 0 \<or> finalResultSet agent3), agent3, w'))))"

definition turnRequest :: "ToolDefinition list \<Rightarrow> 'r Agent \<Rightarrow> NewMessageParams" where
  "turnRequest toolDefs agent =
     \<lparr>SystemPrompt = systemPrompt agent, ToolDefinitions = toolDefs,
      History = llmMessages agent, EnableCaching = True\<rparr>"

definition runTurn ::
  "'r ResultT \<Rightarrow> 'r Agent \<Rightarrow> 'b World \<Rightarrow> (Failure + bool) \<times> 'r Agent \<times> 'b World" where
  "runTurn T agent w =
     (let (toolDefs, agent1, w1) = offerTools agent w;
          (answer, w2) = NewMessage (llm agent1) (turnRequest toolDefs agent1) w1
      in case answer of
           Inl err \<Rightarrow> (Inl (ErrNewLLMMessage err), agent1, w2)
         | Inr message \<Rightarrow> processMessage T message agent1 w2)"

definition finalResultReminder :: string where
  "finalResultReminder =
     ''You need to call the FinalResult tool to return a result. Please do so.''"

text \<open>The \<^verbatim>\<open>for\<close> loop of \<^verbatim>\<open>Agent.Run\<close>. Nothing bounds the number of turns, so the
  model counts them down: \<open>None\<close> says the loop is still running after \<open>n\<close> turns.\<close>

fun runLoop ::
  "nat \<Rightarrow> 'r ResultT \<Rightarrow> 'r Agent \<Rightarrow> 'b World \<Rightarrow> ((Failure + 'r RunResult) \<times> 'r Agent \<times> 'b World) option" where
  "runLoop 0 T agent w = None"
| "runLoop (Suc n) T agent w =
     (case runTurn T agent w of
        (Inl err, agent', w') \<Rightarrow> Some (Inl err, agent', w')
      | (Inr finished, agent', w') \<Rightarrow>
          (if \<not> finished then runLoop n T agent' w'
           else if finalResultSet agent' then
             Some (Inr \<lparr>Data = finalResult agent', TotalUsage = llmUsage agent',
                        Messages = llmMessages agent'\<rparr>, agent', w')
           else runLoop n T (addSystemReminder finalResultReminder agent') w'))"

section \<open>Session store (pkg/core/session.go)\<close>

definition registerTypesForSession :: "GobType list" where
  "registerTypesForSession =
     [GobMessage, GobTextContent, GobToolCall, GobToolResult, GobTokenUsage]"

definition restoreSession :: "'b Gob \<Rightarrow> 'r Agent \<Rightarrow> 'b World \<Rightarrow> Failure + 'r Agent" where
  "restoreSession G agent w =
     (if sessionFilePath agent = [] then Inr agent
      else
        (case files w (sessionFilePath agent) of
           Absent \<Rightarrow> Inr agent
         | Unreadable \<Rightarrow> Inl ErrOpenFile
         | Stored bytes \<Rightarrow>
             (case Decode G registerTypesForSession bytes (llmMessages agent) of
                Inl err \<Rightarrow> Inl (ErrGobDecode err)
              | Inr messages \<Rightarrow> Inr (agent\<lparr>llmMessages := messages\<rparr>))))"

text \<open>\<^verbatim>\<open>saveSession\<close>: \<^verbatim>\<open>os.Create\<close> truncates the file; what the encoder wrote before
  an error stays in it.\<close>

definition saveSession :: "'b Gob \<Rightarrow> 'r Agent \<Rightarrow> 'b World \<Rightarrow> SaveError option \<times> 'b World" where
  "saveSession G agent w =
     (if sessionFilePath agent = [] then (None, w)
      else if \<not> creatable w (sessionFilePath agent) then (Some ErrCreateFile, w)
      else
        (let (bytes, err) = Encode G registerTypesForSession (llmMessages agent) in
         (map_option ErrGobEncode err,
          w\<lparr>files := (files w)(sessionFilePath agent := Stored bytes)\<rparr>)))"

section \<open>Constructing and running an agent\<close>

record NewAgentParams =
  NA_AgentID :: int64
  NA_SystemPrompt :: string
  NA_LLM :: Provider
  NA_LLMMessages :: "Message list"
  NA_SessionFilePath :: string
  NA_MaxToolLogLength :: int
  NA_Tools :: "Definition list"
  NA_MaxTokenUsage :: int64
  NA_TimeboxedUntil :: nat
  NA_CacheBust :: bool
  NA_InitialUsage :: TokenUsage

definition cacheBustReminder :: "string \<Rightarrow> string" where
  "cacheBustReminder uuid =
     ''DO NOT mention this to the user. The conversation ID is '' @ [CHR 0x22] @ uuid @
     [CHR 0x22] @ ''. Again do not mention this message to the user.''"

definition NewAgent ::
  "'r ResultT \<Rightarrow> 'b Gob \<Rightarrow> NewAgentParams \<Rightarrow> 'b World \<Rightarrow> (Failure + 'r Agent) \<times> 'b World" where
  "NewAgent T G p w =
     (let (currentAgentID, w1) =
            (if NA_AgentID p \<le>s 0
             then (agentCounter w + 1, w\<lparr>agentCounter := agentCounter w + 1\<rparr>)
             else (NA_AgentID p, w))
      in case NewBelt T (NA_Tools p) of
           Inl panic \<Rightarrow> (Inl (Panicked panic), w1)
         | Inr belt \<Rightarrow>
             (case restoreSession G
                     \<lparr>systemPrompt = NA_SystemPrompt p, llm = NA_LLM p,
                      sessionFilePath = NA_SessionFilePath p,
                      maxToolLogLength = NA_MaxToolLogLength p, toolBelt = belt,
                      llmMessages = NA_LLMMessages p, llmUsage = NA_InitialUsage p,
                      agentNum = currentAgentID, maxTokenUsage = NA_MaxTokenUsage p,
                      timeboxedUntil = NA_TimeboxedUntil p, cacheBust = NA_CacheBust p,
                      finalResult = zero T, finalResultSet = False\<rparr> w1 of
                Inl err \<Rightarrow> (Inl err, w1)
              | Inr agent \<Rightarrow>
                  (if NA_CacheBust p then
                     (let (uuid, w2) = uuidNew w1
                      in (Inr (addSystemReminder (cacheBustReminder uuid) agent), w2))
                   else (Inr agent, w1))))"

text \<open>\<^verbatim>\<open>Agent.Run\<close>: the deferred \<^verbatim>\<open>saveSession\<close> runs when the loop returns, with a
  result or with an error, and its own error is only logged. A panic in a tool's
  goroutine ends the process; no deferred call of another goroutine runs then.\<close>

definition AgentRun ::
  "nat \<Rightarrow> 'r ResultT \<Rightarrow> 'b Gob \<Rightarrow> string \<Rightarrow> 'r Agent \<Rightarrow> 'b World \<Rightarrow> ((Failure + 'r RunResult) \<times> 'r Agent \<times> 'b World) option" where
  "AgentRun n T G prompt agent w =
     (case runLoop n T (addUserPrompt prompt agent) w of
        None \<Rightarrow> None
      | Some (Inl (Panicked p), agent', w') \<Rightarrow> Some (Inl (Panicked p), agent', w')
      | Some (res, agent', w') \<Rightarrow> Some (res, agent', snd (saveSession G agent' w')))"

section \<open>Run facade and usage aggregator (pkg/agent)\<close>

text \<open>\<open>Base_NewProvider\<close> is what \<^verbatim>\<open>b.Model.NewProvider(ctx)\<close> returns. The mutex of
  \<^verbatim>\<open>Base\<close> is not modelled: \<open>Run\<close> is one call on its own, and other runs that share
  the \<^verbatim>\<open>Base\<close> only add to \<open>Base_llmUsage\<close> before or after it.\<close>

record Base =
  Base_NewProvider :: "string + Provider"
  Base_MaxToolLogLength :: int
  Base_CacheBust :: bool
  Base_SessionFilePath :: string
  Base_MaxTokenUsage :: int64
  Base_Timebox :: int
  Base_llmUsage :: TokenUsage

record RunMeta =
  Meta_AgentID :: int64
  Meta_Usage :: TokenUsage
  Meta_Messages :: "Message list"

definition zeroRunMeta :: RunMeta where
  "zeroRunMeta = \<lparr>Meta_AgentID = 0, Meta_Usage = zeroUsage, Meta_Messages = []\<rparr>"

record RunParams =
  RP_Prompt :: string
  RP_System :: string
  RP_Tools :: "Definition list"
  RP_PreviousMeta :: RunMeta

definition subUsage :: "TokenUsage \<Rightarrow> TokenUsage \<Rightarrow> TokenUsage" where
  "subUsage u previous =
     \<lparr>InputTokens = InputTokens u - InputTokens previous,
      OutputTokens = OutputTokens u - OutputTokens previous,
      CacheCreationTokens = CacheCreationTokens u - CacheCreationTokens previous,
      CacheReadTokens = CacheReadTokens u - CacheReadTokens previous\<rparr>"

definition addUsage :: "TokenUsage \<Rightarrow> Base \<Rightarrow> Base" where
  "addUsage u b = b\<lparr>Base_llmUsage := addUsageTo u (Base_llmUsage b)\<rparr>"

definition LLMUsage :: "Base \<Rightarrow> TokenUsage" where
  "LLMUsage b = Base_llmUsage b"

text \<open>\<^verbatim>\<open>Run\<close>: the result is the data and the \<^verbatim>\<open>RunMeta\<close>, or the failure (with which
  the Go function returns the zero value and an empty \<^verbatim>\<open>RunMeta\<close>), and the
  \<^verbatim>\<open>Base\<close> and the world as the call leaves them. \<^verbatim>\<open>Agent.Run\<close> returns a nil result
  exactly when it returns an error, so the last check of \<^verbatim>\<open>Run\<close> never fires.\<close>

definition Run ::
  "nat \<Rightarrow> 'r ResultT \<Rightarrow> 'b Gob \<Rightarrow> Base \<Rightarrow> RunParams \<Rightarrow> 'b World \<Rightarrow> ((Failure + 'r \<times> RunMeta) \<times> Base \<times> 'b World) option" where
  "Run n T G b p w =
     (case Base_NewProvider b of
        Inl err \<Rightarrow> Some (Inl (ErrNewProvider err), b, w)
      | Inr provider \<Rightarrow>
          (let (until, w1) =
                 (if 0 < Base_Timebox b
                  then (let (t, w') = timeNow w in (t + nat (Base_Timebox b), w'))
                  else (0, w))
           in case NewAgent T G
                     \<lparr>NA_AgentID = Meta_AgentID (RP_PreviousMeta p),
                      NA_SystemPrompt = RP_System p, NA_LLM = provider,
                      NA_LLMMessages = Meta_Messages (RP_PreviousMeta p),
                      NA_SessionFilePath = Base_SessionFilePath b,
                      NA_MaxToolLogLength = Base_MaxToolLogLength b,
                      NA_Tools = RP_Tools p,
                      NA_MaxTokenUsage = Base_MaxTokenUsage b - Total (LLMUsage b),
                      NA_TimeboxedUntil = until, NA_CacheBust = Base_CacheBust b,
                      NA_InitialUsage = Meta_Usage (RP_PreviousMeta p)\<rparr> w1 of
                (Inl err, w2) \<Rightarrow> Some (Inl err, b, w2)
              | (Inr agentInstance, w2) \<Rightarrow>
                  (case AgentRun n T G (RP_Prompt p) agentInstance w2 of
                     None \<Rightarrow> None
                   | Some (Inl err, agent', w3) \<Rightarrow> Some (Inl err, b, w3)
                   | Some (Inr res, agent', w3) \<Rightarrow>
                       Some (Inr (Data res,
                                  \<lparr>Meta_AgentID = agentNum agent',
                                   Meta_Usage = TotalUsage res,
                                   Meta_Messages = Messages res\<rparr>),
                             addUsage (subUsage (TotalUsage res)
                                         (Meta_Usage (RP_PreviousMeta p))) b,
                             w3))))"

section \<open>Vocabulary of the properties\<close>

text \<open>The schema \<^verbatim>\<open>NewBelt\<close> gives the reserved entry: the result type itself when
  it is a struct, the single-field envelope otherwise.\<close>

definition finalResultSchemaOf :: "'r ResultT \<Rightarrow> Schema" where
  "finalResultSchemaOf T =
     (if KindOf (goType T) = KStruct then GenerateSchema (goType T)
      else GenerateSchema (finalResultPrimitiveInput (goType T)))"

text \<open>\<open>resultFor r t\<close>: the part \<open>r\<close> is a tool result with the identifier and the name
  of the call \<open>t\<close>.\<close>

definition resultFor :: "ContentPart \<Rightarrow> toolUseParams \<Rightarrow> bool" where
  "resultFor r t = (case r of ToolResult i n c e \<Rightarrow> i = tuID t \<and> n = tuName t | _ \<Rightarrow> False)"

text \<open>What a call of a tool can change of the agent: the final result, and the flag from
  unset to set. What reading the clock changes of the world: the time, forwards. What
  the dispatch of a turn changes of it: the time and the picks it has used.\<close>

definition sameButResult :: "'r Agent \<Rightarrow> 'r Agent \<Rightarrow> bool" where
  "sameButResult a a' =
     (systemPrompt a' = systemPrompt a \<and> llm a' = llm a \<and>
      sessionFilePath a' = sessionFilePath a \<and> maxToolLogLength a' = maxToolLogLength a \<and>
      toolBelt a' = toolBelt a \<and> llmMessages a' = llmMessages a \<and>
      llmUsage a' = llmUsage a \<and> agentNum a' = agentNum a \<and>
      maxTokenUsage a' = maxTokenUsage a \<and> timeboxedUntil a' = timeboxedUntil a \<and>
      cacheBust a' = cacheBust a \<and> (finalResultSet a \<longrightarrow> finalResultSet a'))"

definition sameButClock :: "'b World \<Rightarrow> 'b World \<Rightarrow> bool" where
  "sameButClock w w' =
     (now w \<le> now w' \<and> picks w' = picks w \<and> requests w' = requests w \<and>
      files w' = files w \<and> creatable w' = creatable w \<and>
      agentCounter w' = agentCounter w \<and> uuids w' = uuids w \<and> uuidsDrawn w' = uuidsDrawn w)"

definition sameButSchedule :: "'b World \<Rightarrow> 'b World \<Rightarrow> bool" where
  "sameButSchedule w w' =
     (now w \<le> now w' \<and> requests w' = requests w \<and>
      files w' = files w \<and> creatable w' = creatable w \<and>
      agentCounter w' = agentCounter w \<and> uuids w' = uuids w \<and> uuidsDrawn w' = uuidsDrawn w)"

text \<open>The synthetic result of \<^verbatim>\<open>useTool\<close> for a call refused past the timebox.\<close>

definition timeboxResult :: "toolUseParams \<Rightarrow> ContentPart" where
  "timeboxResult t = ToolResult (tuID t) (tuName t) ''timebox expired, cannot use tool'' True"

text \<open>The provider's answer in the turn that starts from the agent and the world given;
  the ceiling test of \<^verbatim>\<open>updateUsage\<close>; the order in which the calls of a turn finish
  in the world given.\<close>

definition turnAnswer :: "'r Agent \<Rightarrow> 'b World \<Rightarrow> string + Message" where
  "turnAnswer agent w =
     (let (toolDefs, agent1, w1) = offerTools agent w
      in fst (NewMessage (llm agent1) (turnRequest toolDefs agent1) w1))"

definition overCeiling :: "int64 \<Rightarrow> TokenUsage \<Rightarrow> bool" where
  "overCeiling ceiling u = (0 <s ceiling \<and> ceiling <s Total u)"

definition scheduled :: "'b World \<Rightarrow> toolUseParams list \<Rightarrow> toolUseParams list" where
  "scheduled w toolUses = completionOrder (take (length toolUses) (picks w)) toolUses"

text \<open>What the session store relies on from \<^verbatim>\<open>encoding/gob\<close>: a history all of whose
  parts have a registered concrete type is encoded without an error, and decoding the
  bytes into an empty history gives the encoded history back.\<close>

definition gobFaithful :: "'b Gob \<Rightarrow> bool" where
  "gobFaithful G =
     (\<forall>registered messages.
        (\<forall>m \<in> set messages. \<forall>part \<in> set (Parts m). concreteType part \<in> set registered) \<longrightarrow>
        (\<exists>bytes. Encode G registered messages = (bytes, None) \<and>
                 Decode G registered bytes [] = Inr messages))"

section \<open>Example inputs\<close>

text \<open>An instance of the result type \<^verbatim>\<open>int\<close> whose decoder knows one payload, the same
  with an interface type in its place, and a caller's tool that returns its input.\<close>

definition intResultT :: "int ResultT" where
  "intResultT =
     \<lparr>goType = TInt, zero = 0,
      unmarshal = (\<lambda>s. Inl ''json: cannot unmarshal''),
      unmarshalPrimitive =
        (\<lambda>s. if s = ''{response: 42}'' then Inr 42 else Inl ''json: cannot unmarshal'')\<rparr>"

definition anyResultT :: "int ResultT" where
  "anyResultT = intResultT\<lparr>goType := TInterface\<rparr>"

definition echoTool :: "string \<Rightarrow> Definition" where
  "echoTool name =
     \<lparr>ToolDef = \<lparr>Name = name, Description = ''echo'', Schema = None\<rparr>, UseFunc = Func Inr\<rparr>"

text \<open>A codec that stores the history itself and refuses a part of an unregistered type,
  a world with no files and a clock that stands still, a provider that answers from a script, and the parameters of an agent
  with one tool and neither ceiling nor timebox.\<close>

definition exGob :: "(Message list) Gob" where
  "exGob =
     \<lparr>Encode = (\<lambda>registered messages.
                  (messages,
                   if \<forall>m \<in> set messages. \<forall>part \<in> set (Parts m). concreteType part \<in> set registered
                   then None else Some ''gob: type not registered for interface'')),
      Decode = (\<lambda>registered bytes current. Inr bytes)\<rparr>"

definition exWorld :: "(Message list) World" where
  "exWorld =
     \<lparr>now = 100, elapsed = [], picks = [], requests = [], files = (\<lambda>path. Absent),
      creatable = (\<lambda>path. True), agentCounter = 0, uuids = (\<lambda>n. ''uuid''), uuidsDrawn = 0\<rparr>"

definition scripted :: "(string + Message) list \<Rightarrow> Provider" where
  "scripted answers = (\<lambda>n params. if n < length answers then answers ! n else Inl ''no answer'')"

definition exParams :: "(string + Message) list \<Rightarrow> NewAgentParams" where
  "exParams answers =
     \<lparr>NA_AgentID = 0, NA_SystemPrompt = ''system'', NA_LLM = scripted answers,
      NA_LLMMessages = [], NA_SessionFilePath = [], NA_MaxToolLogLength = 500,
      NA_Tools = [echoTool ''read''], NA_MaxTokenUsage = 0, NA_TimeboxedUntil = 0,
      NA_CacheBust = False, NA_InitialUsage = zeroUsage\<rparr>"

text \<open>The registry that \<^verbatim>\<open>NewBelt\<close> builds for the result type \<^verbatim>\<open>int\<close> and one tool
  \<^verbatim>\<open>read\<close>, an agent that owns it, and two answers of the model: a call of
  \<^verbatim>\<open>FinalResult\<close>, and a call of \<^verbatim>\<open>read\<close> together with a call of a tool that does not
  exist.\<close>

definition exBelt :: Belt where
  "exBelt =
     \<lparr>toolDefinitions =
        [(''FinalResult'', reservedFinalResult (Reflect (TStruct [(''response'', TInt)]))),
         (''read'', echoTool ''read'')]\<rparr>"

definition exUsage :: "int64 \<Rightarrow> TokenUsage" where
  "exUsage n = \<lparr>InputTokens = n, OutputTokens = 0, CacheCreationTokens = 0, CacheReadTokens = 0\<rparr>"

definition exAgent :: "(string + Message) list \<Rightarrow> int Agent" where
  "exAgent answers =
     \<lparr>systemPrompt = ''system'', llm = scripted answers, sessionFilePath = [],
      maxToolLogLength = 500, toolBelt = exBelt, llmMessages = [], llmUsage = zeroUsage,
      agentNum = 1, maxTokenUsage = 0, timeboxedUntil = 0, cacheBust = False,
      finalResult = 0, finalResultSet = False\<rparr>"

definition exFinal :: Message where
  "exFinal = \<lparr>Role = RoleAssistant,
     Parts = [ToolCall ''call-1'' ''FinalResult'' ''{response: 42}''], Usage = exUsage 10\<rparr>"

definition exTwoCalls :: Message where
  "exTwoCalls = \<lparr>Role = RoleAssistant,
     Parts = [TextContent ''reading'', ToolCall ''call-a'' ''read'' ''x'', ToolCall ''call-b'' ''write'' ''y''],
     Usage = exUsage 10\<rparr>"

text \<open>The agent with a ceiling of 5 tokens, and with a timebox that has expired.\<close>

definition exCapped :: "int Agent" where
  "exCapped = (exAgent [Inr exFinal])\<lparr>maxTokenUsage := 5\<rparr>"

definition exTimeboxed :: "int Agent" where
  "exTimeboxed = (exAgent [Inr exTwoCalls])\<lparr>timeboxedUntil := 50\<rparr>"

text \<open>A message with text only, and an agent whose model first answers with it and then
  calls \<^verbatim>\<open>FinalResult\<close>.\<close>

definition exText :: Message where
  "exText = \<lparr>Role = RoleAssistant, Parts = [TextContent ''done''], Usage = exUsage 7\<rparr>"

definition exTalker :: "int Agent" where
  "exTalker = exAgent [Inr exText, Inr exFinal]"

text \<open>A \<^verbatim>\<open>Base\<close> whose model answers with the \<^verbatim>\<open>FinalResult\<close> call, without and with a
  ceiling of 5 tokens, and the parameters of a first run.\<close>

definition exBase :: Base where
  "exBase =
     \<lparr>Base_NewProvider = Inr (scripted [Inr exFinal]), Base_MaxToolLogLength = 500,
      Base_CacheBust = False, Base_SessionFilePath = [], Base_MaxTokenUsage = 0,
      Base_Timebox = 0, Base_llmUsage = zeroUsage\<rparr>"

definition exRunParams :: RunParams where
  "exRunParams =
     \<lparr>RP_Prompt = ''hi'', RP_System = ''system'', RP_Tools = [echoTool ''read''],
      RP_PreviousMeta = zeroRunMeta\<rparr>"

text \<open>A history with a text part, tool calls and tool results, the agent that saves it and
  the agent that restores it.\<close>

definition exHistory :: "Message list" where
  "exHistory =
     [NewUserMessage [TextContent ''hi''], exTwoCalls,
      NewUserMessage [ToolResult ''call-a'' ''read'' ''x'' False,
                      ToolResult ''call-b'' ''write'' ''unknown tool: write'' True]]"

definition exSaver :: "int Agent" where
  "exSaver = (exAgent [])\<lparr>sessionFilePath := ''session.gob'', llmMessages := exHistory\<rparr>"

definition exRestorer :: "int Agent" where
  "exRestorer = (exAgent [])\<lparr>sessionFilePath := ''session.gob''\<rparr>"

text \<open>The definitions that evaluate a turn and a run on the examples.\<close>

lemmas turn_defs =
  runTurn_def offerTools_def timeboxExpired_def timeNow_def NewMessage_def turnRequest_def
  processMessage_def updateUsage_def dispatch_def useTool_def UseTool_def resolve_def
  finalResultCall_def structResultType_def SetFinalResult_def truncateLog_def goDiv_def
  addUsageTo_def addSystemReminder_def systemReminder_def NewUserMessage_def
  FinalResultToolName_def FinalResultDefinition_def Let_def

lemmas ex_defs =
  exAgent_def exWorld_def exBelt_def exUsage_def exFinal_def exTwoCalls_def scripted_def
  intResultT_def echoTool_def reservedFinalResult_def zeroUsage_def
  word_sless_alt word_sle_eq

lemmas run_defs =
  Run_def NewAgent_def NewBelt_def registerTool_def GenerateSchema_def
  finalResultPrimitiveInput_def restoreSession_def saveSession_def AgentRun_def
  addUserPrompt_def LLMUsage_def Total_def addUsage_def subUsage_def zeroRunMeta_def
  exBase_def exRunParams_def

section \<open>The tool registry\<close>

lemma map_of_registerTool:
  "map_of (registerTool d m) k = (if k = Name (ToolDef d) then Some d else map_of m k)"
  by (simp add: registerTool_def update_conv')

lemma map_of_fold_registerTool_other:
  "k \<notin> set (map (Name \<circ> ToolDef) tools) \<Longrightarrow> map_of (fold registerTool tools m) k = map_of m k"
  by (induction tools arbitrary: m) (auto simp: map_of_registerTool)

lemma map_of_fold_registerTool_present:
  "map_of m k \<noteq> None \<Longrightarrow> map_of (fold registerTool tools m) k \<noteq> None"
  by (induction tools arbitrary: m) (auto simp: map_of_registerTool)

lemma map_of_fold_registerTool_last:
  assumes "k \<notin> set (map (Name \<circ> ToolDef) post)" and "Name (ToolDef d) = k"
  shows "map_of (fold registerTool (pre @ d # post) m) k = Some d"
  using assms by (simp add: map_of_fold_registerTool_other map_of_registerTool)


lemma structResultType_Inl:
  "structResultType T = Inl p \<longleftrightarrow> goType T = TInterface \<and> p = NilDereference"
  by (cases "goType T") (auto simp: structResultType_def)

lemma NewBelt_Inr:
  "NewBelt T tools = Inr tb \<longleftrightarrow>
     goType T \<noteq> TInterface \<and>
     tb = \<lparr>toolDefinitions = fold registerTool tools
             [(FinalResultToolName, reservedFinalResult (finalResultSchemaOf T))]\<rparr>"
  by (cases "goType T") (auto simp: NewBelt_def structResultType_def finalResultSchemaOf_def)

lemma NewBelt_Inl:
  "NewBelt T tools = Inl p \<longleftrightarrow> goType T = TInterface \<and> p = NilDereference"
  by (cases "goType T") (auto simp: NewBelt_def structResultType_def)

text \<open>
  C1 (as amended). In every registry that \<^verbatim>\<open>NewBelt\<close> builds, the name \<^verbatim>\<open>FinalResult\<close>
  resolves to an entry. When no caller-supplied tool has that name, the entry is the
  reserved one, with the schema derived from the result type. \<^verbatim>\<open>NewBelt\<close> does not
  special-case the name: a caller-supplied tool named \<^verbatim>\<open>FinalResult\<close> replaces the
  reserved entry, and the last such tool in the list is the one the name resolves to.
\<close>

theorem NewBelt_FinalResult_entry:
  assumes "NewBelt T tools = Inr tb"
  shows "(\<exists>d. resolve tb FinalResultToolName = Some d) \<and>
         (FinalResultToolName \<notin> set (map (Name \<circ> ToolDef) tools) \<longrightarrow>
            resolve tb FinalResultToolName = Some (reservedFinalResult (finalResultSchemaOf T))) \<and>
         (\<forall>pre d post.
            tools = pre @ d # post \<and> Name (ToolDef d) = FinalResultToolName \<and>
            FinalResultToolName \<notin> set (map (Name \<circ> ToolDef) post) \<longrightarrow>
            resolve tb FinalResultToolName = Some d)"
proof -
  let ?m = "[(FinalResultToolName, reservedFinalResult (finalResultSchemaOf T))]"
  from assms have tb: "toolDefinitions tb = fold registerTool tools ?m"
    by (simp add: NewBelt_Inr)
  have "map_of (fold registerTool tools ?m) FinalResultToolName \<noteq> None"
    by (rule map_of_fold_registerTool_present) simp
  then have present: "\<exists>d. resolve tb FinalResultToolName = Some d"
    by (simp add: resolve_def tb)
  have reserved: "FinalResultToolName \<notin> set (map (Name \<circ> ToolDef) tools) \<longrightarrow>
      resolve tb FinalResultToolName = Some (reservedFinalResult (finalResultSchemaOf T))"
    by (simp add: resolve_def tb map_of_fold_registerTool_other del: set_map)
  have override: "\<forall>pre d post.
      tools = pre @ d # post \<and> Name (ToolDef d) = FinalResultToolName \<and>
      FinalResultToolName \<notin> set (map (Name \<circ> ToolDef) post) \<longrightarrow>
      resolve tb FinalResultToolName = Some d"
    using map_of_fold_registerTool_last by (fastforce simp: resolve_def tb)
  from present reserved override show ?thesis by blast
qed

theorem NewBelt_FinalResult_entry_witness:
  "NewBelt intResultT [echoTool ''read''] =
     Inr \<lparr>toolDefinitions =
            [(''FinalResult'', reservedFinalResult (Reflect (TStruct [(''response'', TInt)]))),
             (''read'', echoTool ''read'')]\<rparr> \<and>
   resolve \<lparr>toolDefinitions =
            [(''FinalResult'', reservedFinalResult (Reflect (TStruct [(''response'', TInt)]))),
             (''read'', echoTool ''read'')]\<rparr> FinalResultToolName =
     Some (reservedFinalResult (Reflect (TStruct [(''response'', TInt)])))"
proof -
  have h: "NewBelt intResultT [echoTool ''read''] =
     Inr \<lparr>toolDefinitions =
            [(''FinalResult'', reservedFinalResult (Reflect (TStruct [(''response'', TInt)]))),
             (''read'', echoTool ''read'')]\<rparr>"
    by (simp add: NewBelt_def structResultType_def intResultT_def registerTool_def
        echoTool_def FinalResultToolName_def GenerateSchema_def finalResultPrimitiveInput_def)
  from NewBelt_FinalResult_entry [OF h] show ?thesis
    using h
    by (simp add: finalResultSchemaOf_def intResultT_def echoTool_def FinalResultToolName_def 
         GenerateSchema_def finalResultPrimitiveInput_def)
qed

text \<open>
  C1 as stated fails: registered together with one caller-supplied tool named
  \<^verbatim>\<open>FinalResult\<close>, the name resolves to the caller's tool, whose function is not the
  belt's \<^verbatim>\<open>finalResult\<close>.
\<close>

theorem FinalResult_overridden:
  "NewBelt intResultT [echoTool ''FinalResult''] =
     Inr \<lparr>toolDefinitions = [(''FinalResult'', echoTool ''FinalResult'')]\<rparr> \<and>
   resolve \<lparr>toolDefinitions = [(''FinalResult'', echoTool ''FinalResult'')]\<rparr> FinalResultToolName
     = Some (echoTool ''FinalResult'') \<and>
   UseFunc (echoTool ''FinalResult'') \<noteq> BeltFinalResult"
  by (simp add: NewBelt_def structResultType_def intResultT_def registerTool_def resolve_def
        echoTool_def FinalResultToolName_def GenerateSchema_def finalResultPrimitiveInput_def)

section \<open>Constructing an agent\<close>

lemma NewAgent_panics_iff:
  "fst (NewAgent T G p w) = Inl (Panicked panic) \<longleftrightarrow>
     goType T = TInterface \<and> panic = NilDereference"
proof (cases "NewBelt T (NA_Tools p)")
  case (Inl q)
  then have "fst (NewAgent T G p w) = Inl (Panicked q)"
    by (simp add: NewAgent_def split: prod.splits)
  moreover from Inl have "goType T = TInterface \<and> q = NilDereference"
    by (simp add: NewBelt_Inl)
  ultimately show ?thesis by auto
next
  case (Inr tb)
  then have concrete: "goType T \<noteq> TInterface" by (simp add: NewBelt_Inr)
  from Inr have "fst (NewAgent T G p w) \<noteq> Inl (Panicked panic)"
    by (simp add: NewAgent_def restoreSession_def Let_def
             split: prod.splits sum.splits File.splits)
  with concrete show ?thesis by simp
qed

lemma NewAgent_Inr_concrete:
  assumes "fst (NewAgent T G p w) = Inr agent"
  shows "goType T \<noteq> TInterface"
proof (cases "NewBelt T (NA_Tools p)")
  case (Inl q)
  then have "fst (NewAgent T G p w) = Inl (Panicked q)"
    by (simp add: NewAgent_def split: prod.splits)
  with assms show ?thesis by simp
next
  case (Inr tb)
  then show ?thesis by (simp add: NewBelt_Inr)
qed

lemma TypeOfZero_None: "TypeOfZero t = None \<longleftrightarrow> t = TInterface"
  by (cases t) auto

text \<open>
  C10. When the zero value of the result type has no dynamic type (an interface type),
  \<^verbatim>\<open>structResultType\<close> panics on the nil \<^verbatim>\<open>reflect.Type\<close>, so \<^verbatim>\<open>NewBelt\<close> and with
  it \<^verbatim>\<open>NewAgent\<close> panic, whatever the tools, the parameters and the world. For every
  other result type the registry is built and constructing the agent does not panic.
\<close>

theorem NewAgent_interface_result_type:
  "(TypeOfZero (goType T) = None \<longrightarrow>
      structResultType T = Inl NilDereference \<and>
      NewBelt T tools = Inl NilDereference \<and>
      fst (NewAgent T G p w) = Inl (Panicked NilDereference)) \<and>
   (TypeOfZero (goType T) \<noteq> None \<longrightarrow>
      (\<exists>tb. NewBelt T tools = Inr tb) \<and>
      (\<forall>panic. fst (NewAgent T G p w) \<noteq> Inl (Panicked panic)))"
proof (cases "goType T = TInterface")
  case True
  then show ?thesis
    by (simp add: structResultType_Inl NewBelt_Inl NewAgent_panics_iff)
next
  case False
  then have "TypeOfZero (goType T) \<noteq> None" by (simp add: TypeOfZero_None)
  moreover have "\<exists>tb. NewBelt T tools = Inr tb" using False by (simp add: NewBelt_Inr)
  moreover have "\<forall>panic. fst (NewAgent T G p w) \<noteq> Inl (Panicked panic)"
    using False by (simp add: NewAgent_panics_iff)
  ultimately show ?thesis by blast
qed

theorem NewAgent_interface_result_type_witness:
  "TypeOfZero (goType anyResultT) = None \<and>
   fst (NewAgent anyResultT exGob (exParams []) exWorld) = Inl (Panicked NilDereference) \<and>
   TypeOfZero (goType intResultT) \<noteq> None \<and>
   fst (NewAgent intResultT exGob (exParams []) exWorld) \<noteq> Inl (Panicked NilDereference)"
  using NewAgent_interface_result_type [of anyResultT "[]" exGob "exParams []" exWorld]
        NewAgent_interface_result_type [of intResultT "[]" exGob "exParams []" exWorld]
  by (simp add: anyResultT_def intResultT_def)

section \<open>Using tools\<close>

lemma sameButResult_refl [simp]: "sameButResult a a"
  by (simp add: sameButResult_def)

lemma sameButResult_trans: "sameButResult a b \<Longrightarrow> sameButResult b c \<Longrightarrow> sameButResult a c"
  by (simp add: sameButResult_def)

lemma sameButResult_SetFinalResult [simp]: "sameButResult a (SetFinalResult v a)"
  by (simp add: sameButResult_def SetFinalResult_def)

lemma sameButClock_refl [simp]: "sameButClock w w"
  by (simp add: sameButClock_def)

lemma sameButClock_trans: "sameButClock u v \<Longrightarrow> sameButClock v w \<Longrightarrow> sameButClock u w"
  by (simp add: sameButClock_def)

lemma timeNow_reads:
  "timeNow w = (t, w') \<Longrightarrow> t = now w' \<and> sameButClock w w'"
  by (auto simp: timeNow_def sameButClock_def split: list.splits)

lemma timeboxExpired_reads:
  "timeboxExpired a w = (expired, w') \<Longrightarrow>
     sameButClock w w' \<and> (expired \<longleftrightarrow> timeboxedUntil a \<noteq> 0 \<and> timeboxedUntil a < now w')"
  by (auto simp: timeboxExpired_def Let_def split: if_splits prod.splits dest: timeNow_reads) 

lemma timeboxExpired_stays:
  assumes "timeboxedUntil a \<noteq> 0" and "timeboxedUntil a < now w"
  shows "fst (timeboxExpired a w)"
proof -
  obtain e w' where r: "timeboxExpired a w = (e, w')" by (cases "timeboxExpired a w")
  from timeboxExpired_reads [OF r] assms have e
    by (simp add: sameButClock_def)
  with r show ?thesis by simp
qed

lemma goDiv_2_nonneg: "- 2 < m \<Longrightarrow> 0 \<le> goDiv m 2"
  by (cases "0 \<le> m") (auto simp: goDiv_def sgn_if)

lemma goDiv_2_le: "0 \<le> m \<Longrightarrow> goDiv m 2 \<le> m"
  by (auto simp: goDiv_def sgn_if)

lemma truncateLog_ok:
  assumes "- 2 < maxToolLogLength a"
  shows "\<exists>s'. truncateLog a s = Inr s'"
proof (cases "int (length s) \<le> maxToolLogLength a")
  case True
  then show ?thesis by (simp add: truncateLog_def)
next
  case False
  have nonneg: "0 \<le> goDiv (maxToolLogLength a) 2" using assms by (rule goDiv_2_nonneg)
  have "goDiv (maxToolLogLength a) 2 \<le> int (length s)"
  proof (cases "0 \<le> maxToolLogLength a")
    case True
    with goDiv_2_le [OF True] False show ?thesis by linarith
  next
    case neg: False
    with assms have "maxToolLogLength a = - 1" by linarith
    then show ?thesis by (simp add: goDiv_def)
  qed
  with nonneg False show ?thesis by (simp add: truncateLog_def Let_def)
qed

lemma truncateLog_panics:
  "maxToolLogLength a \<le> - 2 \<Longrightarrow> truncateLog a s = Inl SliceBoundsOutOfRange"
  by (auto simp: truncateLog_def Let_def goDiv_def sgn_if) 

lemma finalResultCall_frame:
  "finalResultCall T input a = (r, a') \<Longrightarrow> sameButResult a a'"
  by (auto simp: finalResultCall_def split: sum.splits if_splits)

lemma finalResultCall_no_panic:
  "goType T \<noteq> TInterface \<Longrightarrow> fst (finalResultCall T input a) \<noteq> Panics p"
  by (cases "structResultType T")
     (auto simp: finalResultCall_def structResultType_Inl split: sum.splits)

lemma UseTool_frame:
  "UseTool T name input a = (r, a') \<Longrightarrow> sameButResult a a'"
  by (auto simp: UseTool_def split: option.splits UseFunc.splits sum.splits dest: finalResultCall_frame)

lemma UseTool_no_panic:
  "goType T \<noteq> TInterface \<Longrightarrow> fst (UseTool T name input a) \<noteq> Panics p"
  by (auto simp: UseTool_def finalResultCall_no_panic split: option.splits UseFunc.splits sum.splits)

lemma useTool_frame:
  assumes "useTool T t a w = (res, a', w')"
  shows "sameButResult a a' \<and> sameButClock w w' \<and> (\<forall>r. res = Inr r \<longrightarrow> resultFor r t)"
proof -
  obtain e w1 where tb: "timeboxExpired a w = (e, w1)" by (cases "timeboxExpired a w")
  obtain c a1 where ut: "UseTool T (tuName t) (tuInput t) a = (c, a1)"
    by (cases "UseTool T (tuName t) (tuInput t) a")
  from timeboxExpired_reads [OF tb] have w: "sameButClock w w1" by simp
  from UseTool_frame [OF ut] have a: "sameButResult a a1" .
  from assms tb ut w a show ?thesis
    by (auto simp: useTool_def resultFor_def split: if_splits CallResult.splits sum.splits)
qed

lemma useTool_total:
  assumes "- 2 < maxToolLogLength a" and "goType T \<noteq> TInterface"
  shows "\<exists>r a' w'. useTool T t a w = (Inr r, a', w')"
proof -
  obtain e w1 where tb: "timeboxExpired a w = (e, w1)" by (cases "timeboxExpired a w")
  obtain c a1 where ut: "UseTool T (tuName t) (tuInput t) a = (c, a1)"
    by (cases "UseTool T (tuName t) (tuInput t) a")
  from UseTool_frame [OF ut] have "maxToolLogLength a1 = maxToolLogLength a"
    by (simp add: sameButResult_def)
  with assms(1) have log: "\<And>s. \<exists>s'. truncateLog a1 s = Inr s'"
    by (simp add: truncateLog_ok)
  from UseTool_no_panic [OF assms(2), of "tuName t" "tuInput t" a] ut
  have np: "\<And>p. c \<noteq> Panics p" by simp
  show ?thesis
  proof (cases c)
    case (Returned out)
    with log [of out] tb ut show ?thesis by (cases e) (auto simp: useTool_def)
  next
    case (Failed err)
    with log [of err] tb ut show ?thesis by (cases e) (auto simp: useTool_def)
  next
    case (Panics p)
    with np [of p] show ?thesis by simp
  qed
qed

lemma useTool_expired:
  assumes "timeboxedUntil a \<noteq> 0" and "timeboxedUntil a < now w"
    and "tuName t \<noteq> FinalResultToolName"
  shows "useTool T t a w = (Inr (timeboxResult t), a, snd (timeboxExpired a w))"
proof -
  obtain e w1 where tb: "timeboxExpired a w = (e, w1)" by (cases "timeboxExpired a w")
  from timeboxExpired_stays [OF assms(1,2)] tb have e by simp
  with tb assms(3) show ?thesis by (simp add: useTool_def timeboxResult_def)
qed

lemma useTools_frame:
  "useTools T ts a w = (res, a', w') \<Longrightarrow>
     sameButResult a a' \<and> sameButClock w w' \<and> (\<forall>rs. res = Inr rs \<longrightarrow> list_all2 resultFor rs ts)"
proof (induction ts arbitrary: a w res a' w')
  case Nil
  then show ?case by auto
next
  case (Cons t ts)
  obtain r1 a1 w1 where one: "useTool T t a w = (r1, a1, w1)" by (cases "useTool T t a w")
  note f1 = useTool_frame [OF one]
  show ?case
  proof (cases r1)
    case (Inl p)
    with one Cons.prems f1 show ?thesis by auto
  next
    case (Inr r)
    obtain r2 a2 w2 where rest: "useTools T ts a1 w1 = (r2, a2, w2)"
      by (cases "useTools T ts a1 w1")
    note f2 = Cons.IH [OF rest]
    from f1 f2 have fa: "sameButResult a a2" and fw: "sameButClock w w2"
      by (blast intro: sameButResult_trans sameButClock_trans)+
    from Inr one rest Cons.prems f1 f2 fa fw show ?thesis
      by (cases r2) auto
  qed
qed

lemma useTools_total:
  assumes "- 2 < maxToolLogLength a" and "goType T \<noteq> TInterface"
  shows "\<exists>rs a' w'. useTools T ts a w = (Inr rs, a', w')"
  using assms(1)
proof (induction ts arbitrary: a w)
  case Nil
  then show ?case by simp
next
  case (Cons t ts)
  from useTool_total [OF Cons.prems assms(2)]
  obtain r a1 w1 where one: "useTool T t a w = (Inr r, a1, w1)" by blast
  from useTool_frame [OF one] Cons.prems have "- 2 < maxToolLogLength a1"
    by (simp add: sameButResult_def)
  from Cons.IH [OF this] obtain rs a2 w2 where "useTools T ts a1 w1 = (Inr rs, a2, w2)"
    by blast
  with one show ?case by simp
qed

lemma useTools_expired:
  assumes "timeboxedUntil a \<noteq> 0" and "timeboxedUntil a < now w"
    and "useTools T ts a w = (Inr rs, a', w')"
  shows "list_all2 (\<lambda>r t. tuName t \<noteq> FinalResultToolName \<longrightarrow> r = timeboxResult t) rs ts"
  using assms
proof (induction ts arbitrary: a w rs a' w')
  case Nil
  then show ?case by auto
next
  case (Cons t ts)
  obtain r1 a1 w1 where one: "useTool T t a w = (r1, a1, w1)" by (cases "useTool T t a w")
  obtain r2 a2 w2 where rest: "useTools T ts a1 w1 = (r2, a2, w2)"
    by (cases "useTools T ts a1 w1")
  from one rest Cons.prems(3) obtain r rs' where
    r1: "r1 = Inr r" and r2: "r2 = Inr rs'" and rs: "rs = r # rs'"
    by (auto split: sum.splits)
  from useTool_frame [OF one] Cons.prems(1,2)
  have "timeboxedUntil a1 \<noteq> 0" and "timeboxedUntil a1 < now w1"
    by (auto simp: sameButResult_def sameButClock_def)
  from Cons.IH [OF this rest [unfolded r2]]
  have tail: "list_all2 (\<lambda>r t. tuName t \<noteq> FinalResultToolName \<longrightarrow> r = timeboxResult t) rs' ts" .
  have "tuName t \<noteq> FinalResultToolName \<longrightarrow> r = timeboxResult t"
    using useTool_expired [OF Cons.prems(1,2), of t T] one r1 by auto
  with tail rs show ?case by simp
qed

lemma completionOrder_mset: "mset (completionOrder ps xs) = mset xs"
proof (induction ps arbitrary: xs)
  case Nil
  then show ?case by simp
next
  case (Cons p ps)
  show ?case
  proof (cases "xs = []")
    case True
    then show ?thesis by simp
  next
    case False
    let ?i = "p mod length xs"
    from False have lt: "?i < length xs" by simp
    have "mset (completionOrder (p # ps) xs) = {#xs ! ?i#} + mset (take ?i xs @ drop (Suc ?i) xs)"
      using False by (simp add: Let_def Cons.IH)
    also have "\<dots> = mset (take ?i xs @ xs ! ?i # drop (Suc ?i) xs)" by simp
    also have "\<dots> = mset xs" using id_take_nth_drop [OF lt] by simp
    finally show ?thesis .
  qed
qed

lemma completionOrder_length: "length (completionOrder ps xs) = length xs"
  using completionOrder_mset [of ps xs] by (metis size_mset)

lemma dispatch_frame:
  assumes "dispatch T ts a w = (res, a', w')"
  shows "sameButResult a a' \<and> sameButSchedule w w' \<and>
         (\<forall>rs. res = Inr rs \<longrightarrow>
            list_all2 resultFor rs (completionOrder (take (length ts) (picks w)) ts))"
proof -
  from assms have "useTools T (completionOrder (take (length ts) (picks w)) ts) a
      (w\<lparr>picks := drop (length ts) (picks w)\<rparr>) = (res, a', w')"
    by (simp add: dispatch_def Let_def)
  from useTools_frame [OF this] show ?thesis
    by (auto simp: sameButClock_def sameButSchedule_def)
qed

lemma dispatch_total:
  assumes "- 2 < maxToolLogLength a" and "goType T \<noteq> TInterface"
  shows "\<exists>rs a' w'. dispatch T ts a w = (Inr rs, a', w')"
  using useTools_total [OF assms] by (simp add: dispatch_def Let_def)

lemma dispatch_expired:
  assumes "timeboxedUntil a \<noteq> 0" and "timeboxedUntil a < now w"
    and "dispatch T ts a w = (Inr rs, a', w')"
  shows "list_all2 (\<lambda>r t. tuName t \<noteq> FinalResultToolName \<longrightarrow> r = timeboxResult t) rs
           (completionOrder (take (length ts) (picks w)) ts)"
proof -
  from assms(3) have "useTools T (completionOrder (take (length ts) (picks w)) ts) a
      (w\<lparr>picks := drop (length ts) (picks w)\<rparr>) = (Inr rs, a', w')"
    by (simp add: dispatch_def Let_def)
  from useTools_expired [OF assms(1) _ this] assms(2) show ?thesis by simp
qed

section \<open>One turn\<close>

lemma updateUsage_eq:
  "updateUsage u a =
     ((if overCeiling (maxTokenUsage a) (addUsageTo u (llmUsage a))
       then Some (ErrMaxTokenUsage (Total (addUsageTo u (llmUsage a))) (maxTokenUsage a))
       else None),
      a\<lparr>llmUsage := addUsageTo u (llmUsage a)\<rparr>)"
  by (simp add: updateUsage_def overCeiling_def Let_def)

lemma offerTools_expired:
  assumes "timeboxExpired a w = (True, w1)"
  shows "offerTools a w =
           ([FinalResultDefinition (toolBelt a)], addSystemReminder timeboxReminder a, w1)"
  using assms by (simp add: offerTools_def)

lemma offerTools_not_expired:
  assumes "timeboxExpired a w = (False, w1)"
  shows "offerTools a w = (LLMDefinitions (toolBelt a), a, w1)"
  using assms by (simp add: offerTools_def)

lemma offerTools_frame:
  assumes "offerTools a w = (defs, a1, w1)"
  shows "sameButClock w w1 \<and> sameButResult a (a1\<lparr>llmMessages := llmMessages a\<rparr>) \<and>
         finalResultSet a1 = finalResultSet a \<and> finalResult a1 = finalResult a \<and>
         (llmMessages a1 = llmMessages a \<or>
          llmMessages a1 = llmMessages a @ [systemReminder timeboxReminder])"
proof -
  obtain e w' where tb: "timeboxExpired a w = (e, w')" by (cases "timeboxExpired a w")
  from timeboxExpired_reads [OF tb] have "sameButClock w w'" by simp
  with assms tb show ?thesis
    by (cases e) (auto simp: offerTools_def sameButResult_def addSystemReminder_def)
qed

lemma processMessage_over:
  assumes "overCeiling (maxTokenUsage a) (addUsageTo (Usage message) (llmUsage a))"
  shows "processMessage T message a w =
           (Inl (ErrMaxTokenUsage (Total (addUsageTo (Usage message) (llmUsage a)))
                   (maxTokenUsage a)),
            a\<lparr>llmMessages := llmMessages a @ [message],
              llmUsage := addUsageTo (Usage message) (llmUsage a)\<rparr>, w)"
  using assms by (simp add: processMessage_def updateUsage_eq)

lemma processMessage_within:
  assumes "\<not> overCeiling (maxTokenUsage a) (addUsageTo (Usage message) (llmUsage a))"
    and "dispatch T (toolUsesOf (Parts message))
           (a\<lparr>llmMessages := llmMessages a @ [message],
              llmUsage := addUsageTo (Usage message) (llmUsage a)\<rparr>) w = (res, a2, w2)"
  shows "processMessage T message a w =
           (case res of
              Inl p \<Rightarrow> (Inl (Panicked p), a2, w2)
            | Inr results \<Rightarrow>
                (Inr (results = [] \<or> finalResultSet a2),
                 (if results = [] then a2
                  else a2\<lparr>llmMessages := llmMessages a2 @ [NewUserMessage results]\<rparr>), w2))"
  using assms by (auto simp: processMessage_def updateUsage_eq Let_def split: sum.splits)

lemma processMessage_usage:
  assumes "processMessage T message a w = (res, a', w')"
  shows "llmUsage a' = addUsageTo (Usage message) (llmUsage a)"
proof (cases "overCeiling (maxTokenUsage a) (addUsageTo (Usage message) (llmUsage a))")
  case True
  from processMessage_over [OF True, of T w] assms show ?thesis by auto
next
  case False
  let ?a1 = "a\<lparr>llmMessages := llmMessages a @ [message],
              llmUsage := addUsageTo (Usage message) (llmUsage a)\<rparr>"
  obtain r a2 w2 where d: "dispatch T (toolUsesOf (Parts message)) ?a1 w = (r, a2, w2)"
    by (cases "dispatch T (toolUsesOf (Parts message)) ?a1 w")
  from dispatch_frame [OF d] have "llmUsage a2 = llmUsage ?a1" by (simp add: sameButResult_def)
  with processMessage_within [OF False d] assms show ?thesis
    by (auto split: sum.splits if_splits)
qed

lemma processMessage_Inr:
  assumes "processMessage T message a w = (Inr finished, a', w')"
  shows "\<exists>results.
           llmMessages a' = llmMessages a @ message #
              (if toolUsesOf (Parts message) = [] then [] else [NewUserMessage results]) \<and>
           list_all2 resultFor results (scheduled w (toolUsesOf (Parts message))) \<and>
           finished = (toolUsesOf (Parts message) = [] \<or> finalResultSet a') \<and>
           (toolUsesOf (Parts message) = [] \<longrightarrow> finalResultSet a' = finalResultSet a) \<and>
           (finalResultSet a \<longrightarrow> finalResultSet a') \<and>
           \<not> overCeiling (maxTokenUsage a) (addUsageTo (Usage message) (llmUsage a)) \<and>
           sameButResult (a\<lparr>llmMessages := llmMessages a', llmUsage := llmUsage a'\<rparr>) a' \<and>
           sameButSchedule w w'"
proof (cases "overCeiling (maxTokenUsage a) (addUsageTo (Usage message) (llmUsage a))")
  case True
  from processMessage_over [OF True, of T w] assms show ?thesis by simp
next
  case False
  let ?a1 = "a\<lparr>llmMessages := llmMessages a @ [message],
              llmUsage := addUsageTo (Usage message) (llmUsage a)\<rparr>"
  let ?ts = "toolUsesOf (Parts message)"
  obtain r a2 w2 where d: "dispatch T ?ts ?a1 w = (r, a2, w2)"
    by (cases "dispatch T ?ts ?a1 w")
  from processMessage_within [OF False d] assms obtain results where
    r: "r = Inr results" and fin: "finished = (results = [] \<or> finalResultSet a2)" and
    a': "a' = (if results = [] then a2
               else a2\<lparr>llmMessages := llmMessages a2 @ [NewUserMessage results]\<rparr>)" and
    w': "w' = w2"
    by (cases r) auto
  from dispatch_frame [OF d] r have
    fa: "sameButResult ?a1 a2" and fw: "sameButSchedule w w2" and
    la: "list_all2 resultFor results (scheduled w ?ts)"
    by (auto simp: scheduled_def)
  from la have len: "length results = length ?ts"
    by (simp add: list_all2_lengthD scheduled_def completionOrder_length)
  then have empty: "(results = []) = (?ts = [])" by auto
  have nocalls: "?ts = [] \<longrightarrow> finalResultSet a2 = finalResultSet a"
  proof
    assume "?ts = []"
    with d show "finalResultSet a2 = finalResultSet a"
      by (auto simp: dispatch_def)
  qed
  from fa have msgs: "llmMessages a2 = llmMessages a @ [message]"
    by (simp add: sameButResult_def)
  show ?thesis
    apply (rule exI [of _ results])
    using fa fw la fin a' w' empty nocalls msgs False
    by (auto simp: sameButResult_def)
qed

lemma runTurn_unfold:
  obtains defs a1 w1 where
    "offerTools a w = (defs, a1, w1)"
    "turnAnswer a w = llm a (length (requests w)) (turnRequest defs a1)"
    "runTurn T a w =
       (case turnAnswer a w of
          Inl err \<Rightarrow> (Inl (ErrNewLLMMessage err), a1,
                      w1\<lparr>requests := requests w @ [turnRequest defs a1]\<rparr>)
        | Inr message \<Rightarrow>
            processMessage T message a1 (w1\<lparr>requests := requests w @ [turnRequest defs a1]\<rparr>))"
proof -
  obtain defs a1 w1 where ot: "offerTools a w = (defs, a1, w1)"
    by (cases "offerTools a w")
  from offerTools_frame [OF ot] have rq: "requests w1 = requests w" and l: "llm a1 = llm a"
    by (simp_all add: sameButClock_def sameButResult_def)
  have ta: "turnAnswer a w = llm a (length (requests w)) (turnRequest defs a1)"
    by (simp add: turnAnswer_def ot NewMessage_def rq l)
  have "runTurn T a w =
       (case turnAnswer a w of
          Inl err \<Rightarrow> (Inl (ErrNewLLMMessage err), a1,
                      w1\<lparr>requests := requests w @ [turnRequest defs a1]\<rparr>)
        | Inr message \<Rightarrow>
            processMessage T message a1 (w1\<lparr>requests := requests w @ [turnRequest defs a1]\<rparr>))"
    by (simp add: runTurn_def turnAnswer_def ot NewMessage_def rq l split: sum.splits)
  with ot ta show ?thesis by (rule that)
qed

lemma runTurn_requests:
  assumes "offerTools a w = (defs, a1, w1)" and "runTurn T a w = (res, a', w')"
  shows "requests w' = requests w @ [turnRequest defs a1]"
proof -
  obtain defs' a1' w1' where ot: "offerTools a w = (defs', a1', w1')" and
    rt: "runTurn T a w =
       (case turnAnswer a w of
          Inl err \<Rightarrow> (Inl (ErrNewLLMMessage err), a1',
                      w1'\<lparr>requests := requests w @ [turnRequest defs' a1']\<rparr>)
        | Inr message \<Rightarrow>
            processMessage T message a1' (w1'\<lparr>requests := requests w @ [turnRequest defs' a1']\<rparr>))"
    by (rule runTurn_unfold [of a w T])
  from ot assms(1) have eq: "defs' = defs" "a1' = a1" "w1' = w1" by simp_all
  let ?w2 = "w1\<lparr>requests := requests w @ [turnRequest defs a1]\<rparr>"
  show ?thesis
  proof (cases "turnAnswer a w")
    case (Inl err)
    with rt eq assms(2) show ?thesis by auto
  next
    case (Inr message)
    with rt eq assms(2) have pm: "processMessage T message a1 ?w2 = (res, a', w')" by simp
    show ?thesis
    proof (cases "overCeiling (maxTokenUsage a1) (addUsageTo (Usage message) (llmUsage a1))")
      case True
      from processMessage_over [OF True, of T ?w2] pm show ?thesis by auto
    next
      case False
      let ?a2 = "a1\<lparr>llmMessages := llmMessages a1 @ [message],
                    llmUsage := addUsageTo (Usage message) (llmUsage a1)\<rparr>"
      obtain r a3 w3 where d: "dispatch T (toolUsesOf (Parts message)) ?a2 ?w2 = (r, a3, w3)"
        by (cases "dispatch T (toolUsesOf (Parts message)) ?a2 ?w2")
      from dispatch_frame [OF d] have "requests w3 = requests ?w2"
        by (simp add: sameButSchedule_def)
      moreover from processMessage_within [OF False d] pm have "w' = w3"
        by (auto split: sum.splits)
      ultimately show ?thesis by simp
    qed
  qed
qed

lemma runTurn_usage:
  assumes "turnAnswer a w = Inr message" and "runTurn T a w = (res, a', w')"
  shows "llmUsage a' = addUsageTo (Usage message) (llmUsage a)"
proof -
  obtain defs a1 w1 where ot: "offerTools a w = (defs, a1, w1)" and
    rt: "runTurn T a w =
       (case turnAnswer a w of
          Inl err \<Rightarrow> (Inl (ErrNewLLMMessage err), a1,
                      w1\<lparr>requests := requests w @ [turnRequest defs a1]\<rparr>)
        | Inr message \<Rightarrow>
            processMessage T message a1 (w1\<lparr>requests := requests w @ [turnRequest defs a1]\<rparr>))"
    by (rule runTurn_unfold [of a w T])
  from offerTools_frame [OF ot] have "llmUsage a1 = llmUsage a"
    by (simp add: sameButResult_def)
  moreover from rt assms have
    "processMessage T message a1 (w1\<lparr>requests := requests w @ [turnRequest defs a1]\<rparr>) = (res, a', w')"
    by simp
  from processMessage_usage [OF this] have "llmUsage a' = addUsageTo (Usage message) (llmUsage a1)" .
  ultimately show ?thesis by simp
qed

lemma runTurn_failure:
  assumes "runTurn T a w = (Inl err, a', w')"
  shows "(\<exists>e. turnAnswer a w = Inl e \<and> err = ErrNewLLMMessage e) \<or>
         (\<exists>message. turnAnswer a w = Inr message \<and>
            overCeiling (maxTokenUsage a) (llmUsage a') \<and>
            err = ErrMaxTokenUsage (Total (llmUsage a')) (maxTokenUsage a)) \<or>
         (\<exists>p. err = Panicked p)"
proof -
  obtain defs a1 w1 where ot: "offerTools a w = (defs, a1, w1)" and
    rt: "runTurn T a w =
       (case turnAnswer a w of
          Inl err \<Rightarrow> (Inl (ErrNewLLMMessage err), a1,
                      w1\<lparr>requests := requests w @ [turnRequest defs a1]\<rparr>)
        | Inr message \<Rightarrow>
            processMessage T message a1 (w1\<lparr>requests := requests w @ [turnRequest defs a1]\<rparr>))"
    by (rule runTurn_unfold [of a w T])
  from offerTools_frame [OF ot] have same: "llmUsage a1 = llmUsage a" "maxTokenUsage a1 = maxTokenUsage a"
    by (simp_all add: sameButResult_def)
  let ?w2 = "w1\<lparr>requests := requests w @ [turnRequest defs a1]\<rparr>"
  show ?thesis
  proof (cases "turnAnswer a w")
    case (Inl e)
    with rt assms show ?thesis by simp
  next
    case (Inr message)
    with rt assms have pm: "processMessage T message a1 ?w2 = (Inl err, a', w')" by simp
    show ?thesis
    proof (cases "overCeiling (maxTokenUsage a1) (addUsageTo (Usage message) (llmUsage a1))")
      case True
      from processMessage_over [OF True, of T ?w2] pm True same Inr show ?thesis by auto
    next
      case False
      let ?a2 = "a1\<lparr>llmMessages := llmMessages a1 @ [message],
                    llmUsage := addUsageTo (Usage message) (llmUsage a1)\<rparr>"
      obtain r a3 w3 where d: "dispatch T (toolUsesOf (Parts message)) ?a2 ?w2 = (r, a3, w3)"
        by (cases "dispatch T (toolUsesOf (Parts message)) ?a2 ?w2")
      from processMessage_within [OF False d] pm show ?thesis
        by (auto split: sum.splits)
    qed
  qed
qed

lemma runTurn_Inr:
  assumes "runTurn T a w = (Inr finished, a', w')"
  shows "\<exists>message results.
           turnAnswer a w = Inr message \<and>
           llmMessages a' = History (last (requests w')) @ message #
              (if toolUsesOf (Parts message) = [] then [] else [NewUserMessage results]) \<and>
           list_all2 resultFor results (scheduled w (toolUsesOf (Parts message))) \<and>
           finished = (toolUsesOf (Parts message) = [] \<or> finalResultSet a') \<and>
           (toolUsesOf (Parts message) = [] \<longrightarrow> finalResultSet a' = finalResultSet a) \<and>
           (finalResultSet a \<longrightarrow> finalResultSet a') \<and>
           \<not> overCeiling (maxTokenUsage a) (addUsageTo (Usage message) (llmUsage a)) \<and>
           sameButResult (a\<lparr>llmMessages := llmMessages a', llmUsage := llmUsage a'\<rparr>) a'"
proof -
  obtain defs a1 w1 where ot: "offerTools a w = (defs, a1, w1)" and
    rt: "runTurn T a w =
       (case turnAnswer a w of
          Inl err \<Rightarrow> (Inl (ErrNewLLMMessage err), a1,
                      w1\<lparr>requests := requests w @ [turnRequest defs a1]\<rparr>)
        | Inr message \<Rightarrow>
            processMessage T message a1 (w1\<lparr>requests := requests w @ [turnRequest defs a1]\<rparr>))"
    by (rule runTurn_unfold [of a w T])
  let ?w2 = "w1\<lparr>requests := requests w @ [turnRequest defs a1]\<rparr>"
  from rt assms obtain message where ta: "turnAnswer a w = Inr message" and
    pm: "processMessage T message a1 ?w2 = (Inr finished, a', w')"
    by (cases "turnAnswer a w") auto
  from runTurn_requests [OF ot assms] have hist: "History (last (requests w')) = llmMessages a1"
    by (simp add: turnRequest_def)
  from offerTools_frame [OF ot] have
    f1: "sameButResult a (a1\<lparr>llmMessages := llmMessages a\<rparr>)" and
    f2: "finalResultSet a1 = finalResultSet a" and
    f3: "picks w1 = picks w"
    by (simp_all add: sameButClock_def)
  from f3 have sch: "scheduled ?w2 (toolUsesOf (Parts message)) = scheduled w (toolUsesOf (Parts message))"
    by (simp add: scheduled_def)
  from processMessage_Inr [OF pm] obtain results where
    "llmMessages a' = llmMessages a1 @ message #
        (if toolUsesOf (Parts message) = [] then [] else [NewUserMessage results])"
    "list_all2 resultFor results (scheduled ?w2 (toolUsesOf (Parts message)))"
    "finished = (toolUsesOf (Parts message) = [] \<or> finalResultSet a')"
    "toolUsesOf (Parts message) = [] \<longrightarrow> finalResultSet a' = finalResultSet a1"
    "finalResultSet a1 \<longrightarrow> finalResultSet a'"
    "\<not> overCeiling (maxTokenUsage a1) (addUsageTo (Usage message) (llmUsage a1))"
    "sameButResult (a1\<lparr>llmMessages := llmMessages a', llmUsage := llmUsage a'\<rparr>) a'"
    by blast
  with ta hist f1 f2 sch show ?thesis
    apply (intro exI [of _ message] exI [of _ results])
    by (simp add: sameButResult_def)
qed

section \<open>Tool results of a turn\<close>

text \<open>
  C2 (as amended). A turn that ends without a failure has received one assistant
  message. When that message requests no tool call nothing more is appended; when it
  requests K \<ge> 1 calls, exactly one message is appended after it, with the user role,
  holding exactly K tool results. The results stand in the order in which the calls
  finished, which is a permutation of the dispatch order, and each result carries the
  identifier and the name of the call at its place in that order.
\<close>

theorem runTurn_tool_results:
  assumes "runTurn T agent w = (Inr finished, agent', w')"
  shows "\<exists>message results.
           turnAnswer agent w = Inr message \<and>
           llmMessages agent' = History (last (requests w')) @ message #
              (if toolUsesOf (Parts message) = [] then [] else [NewUserMessage results]) \<and>
           Role (NewUserMessage results) = RoleUser \<and>
           length results = length (toolUsesOf (Parts message)) \<and>
           list_all2 resultFor results (scheduled w (toolUsesOf (Parts message))) \<and>
           mset (scheduled w (toolUsesOf (Parts message))) = mset (toolUsesOf (Parts message))"
proof -
  from runTurn_Inr [OF assms] obtain message results where
    ta: "turnAnswer agent w = Inr message" and
    msgs: "llmMessages agent' = History (last (requests w')) @ message #
              (if toolUsesOf (Parts message) = [] then [] else [NewUserMessage results])" and
    la: "list_all2 resultFor results (scheduled w (toolUsesOf (Parts message)))"
    by blast
  from la have "length results = length (toolUsesOf (Parts message))"
    by (simp add: list_all2_lengthD scheduled_def completionOrder_length)
  moreover have "mset (scheduled w (toolUsesOf (Parts message))) = mset (toolUsesOf (Parts message))"
    by (simp add: scheduled_def completionOrder_mset)
  moreover have "Role (NewUserMessage results) = RoleUser"
    by (simp add: NewUserMessage_def)
  ultimately show ?thesis using ta msgs la by blast
qed

text \<open>
  C2 as stated fails: the model requests \<^verbatim>\<open>call-a\<close> and then \<^verbatim>\<open>call-b\<close>, the scheduler
  lets the second call finish first, and the follow-up message holds the result of
  \<^verbatim>\<open>call-b\<close> before the result of \<^verbatim>\<open>call-a\<close>.
\<close>

theorem results_in_completion_order:
  "toolUsesOf (Parts exTwoCalls) =
     [\<lparr>tuID = ''call-a'', tuName = ''read'', tuInput = ''x''\<rparr>,
      \<lparr>tuID = ''call-b'', tuName = ''write'', tuInput = ''y''\<rparr>] \<and>
   llmMessages (fst (snd (runTurn intResultT (exAgent [Inr exTwoCalls])
                            (exWorld\<lparr>picks := [1]\<rparr>)))) =
     [exTwoCalls,
      NewUserMessage [ToolResult ''call-b'' ''write'' ''unknown tool: write'' True,
                      ToolResult ''call-a'' ''read'' ''x'' False]]"
  by (simp add: turn_defs ex_defs)

theorem runTurn_tool_results_witness:
  "runTurn intResultT (exAgent [Inr exTwoCalls]) (exWorld\<lparr>picks := [1]\<rparr>) =
     (Inr False,
      (exAgent [Inr exTwoCalls])
        \<lparr>llmMessages :=
           [exTwoCalls,
            NewUserMessage [ToolResult ''call-b'' ''write'' ''unknown tool: write'' True,
                            ToolResult ''call-a'' ''read'' ''x'' False]],
         llmUsage := exUsage 10\<rparr>,
      exWorld\<lparr>picks := [],
              requests := [turnRequest (LLMDefinitions exBelt) (exAgent [Inr exTwoCalls])]\<rparr>) \<and>
   (\<exists>results.
      length results = 2 \<and>
      list_all2 resultFor results
        [\<lparr>tuID = ''call-b'', tuName = ''write'', tuInput = ''y''\<rparr>,
         \<lparr>tuID = ''call-a'', tuName = ''read'', tuInput = ''x''\<rparr>])"
proof -
  have h: "runTurn intResultT (exAgent [Inr exTwoCalls]) (exWorld\<lparr>picks := [1]\<rparr>) =
     (Inr False,
      (exAgent [Inr exTwoCalls])
        \<lparr>llmMessages :=
           [exTwoCalls,
            NewUserMessage [ToolResult ''call-b'' ''write'' ''unknown tool: write'' True,
                            ToolResult ''call-a'' ''read'' ''x'' False]],
         llmUsage := exUsage 10\<rparr>,
      exWorld\<lparr>picks := [],
              requests := [turnRequest (LLMDefinitions exBelt) (exAgent [Inr exTwoCalls])]\<rparr>)"
    by (simp add: turn_defs ex_defs)
  have ta: "turnAnswer (exAgent [Inr exTwoCalls]) (exWorld\<lparr>picks := [1]\<rparr>) = Inr exTwoCalls"
    by (simp add: turnAnswer_def turn_defs ex_defs)
  have tu: "toolUsesOf (Parts exTwoCalls) =
     [\<lparr>tuID = ''call-a'', tuName = ''read'', tuInput = ''x''\<rparr>,
      \<lparr>tuID = ''call-b'', tuName = ''write'', tuInput = ''y''\<rparr>]"
    by (simp add: ex_defs)
  from runTurn_tool_results [OF h] obtain message results where
    m: "turnAnswer (exAgent [Inr exTwoCalls]) (exWorld\<lparr>picks := [1]\<rparr>) = Inr message" and
    len: "length results = length (toolUsesOf (Parts message))" and
    la: "list_all2 resultFor results
           (scheduled (exWorld\<lparr>picks := [1]\<rparr>) (toolUsesOf (Parts message)))"
    by - (elim exE conjE, rule that)
  from m ta have "message = exTwoCalls" by simp
  with len la tu have len': "length results = 2" and
    la': "list_all2 resultFor results
         (scheduled (exWorld\<lparr>picks := [1]\<rparr>)
            [\<lparr>tuID = ''call-a'', tuName = ''read'', tuInput = ''x''\<rparr>,
             \<lparr>tuID = ''call-b'', tuName = ''write'', tuInput = ''y''\<rparr>])"
    by simp_all
  have ord: "scheduled (exWorld\<lparr>picks := [1]\<rparr>)
            [\<lparr>tuID = ''call-a'', tuName = ''read'', tuInput = ''x''\<rparr>,
             \<lparr>tuID = ''call-b'', tuName = ''write'', tuInput = ''y''\<rparr>] =
          [\<lparr>tuID = ''call-b'', tuName = ''write'', tuInput = ''y''\<rparr>,
           \<lparr>tuID = ''call-a'', tuName = ''read'', tuInput = ''x''\<rparr>]"
    by (simp add: scheduled_def exWorld_def)
  from len' la' [unfolded ord] have "\<exists>results. length results = 2 \<and>
      list_all2 resultFor results
        [\<lparr>tuID = ''call-b'', tuName = ''write'', tuInput = ''y''\<rparr>,
         \<lparr>tuID = ''call-a'', tuName = ''read'', tuInput = ''x''\<rparr>]"
    by (intro exI conjI)
  with h show ?thesis by (rule conjI)
qed

section \<open>Usage accounting and the token ceiling\<close>

lemma runTurn_over:
  assumes "turnAnswer a w = Inr message"
    and "overCeiling (maxTokenUsage a) (addUsageTo (Usage message) (llmUsage a))"
  shows "fst (runTurn T a w) =
           Inl (ErrMaxTokenUsage (Total (addUsageTo (Usage message) (llmUsage a))) (maxTokenUsage a))"
proof -
  obtain defs a1 w1 where ot: "offerTools a w = (defs, a1, w1)" and
    rt: "runTurn T a w =
       (case turnAnswer a w of
          Inl err \<Rightarrow> (Inl (ErrNewLLMMessage err), a1,
                      w1\<lparr>requests := requests w @ [turnRequest defs a1]\<rparr>)
        | Inr message \<Rightarrow>
            processMessage T message a1 (w1\<lparr>requests := requests w @ [turnRequest defs a1]\<rparr>))"
    by (rule runTurn_unfold [of a w T])
  from offerTools_frame [OF ot] have same: "llmUsage a1 = llmUsage a" "maxTokenUsage a1 = maxTokenUsage a"
    by (simp_all add: sameButResult_def)
  with assms(2) have "overCeiling (maxTokenUsage a1) (addUsageTo (Usage message) (llmUsage a1))"
    by simp
  from processMessage_over [OF this, of T "w1\<lparr>requests := requests w @ [turnRequest defs a1]\<rparr>"]
    rt assms(1) same show ?thesis by simp
qed

lemma runTurn_one_request:
  assumes "runTurn T a w = (res, a', w')"
  shows "length (requests w') = Suc (length (requests w))"
proof -
  obtain defs a1 w1 where "offerTools a w = (defs, a1, w1)" by (cases "offerTools a w")
  from runTurn_requests [OF this assms] show ?thesis by simp
qed

text \<open>
  C4. In a turn in which the provider returns a message, the four counters of the
  message's usage are added (as 64-bit integers) to the agent's cumulative usage,
  whatever the turn does next. When the ceiling is greater than 0 and the total of
  the updated counters exceeds it, the turn fails with the budget error, raised after
  the usage was recorded; the loop returns that error with the agent and the world
  as this turn left them, so no further turn runs and the provider has received
  exactly one request more. In every other case the turn does not fail with the
  budget error; in particular a ceiling of 0 never fails.
\<close>

theorem turn_usage_and_budget:
  assumes "turnAnswer agent w = Inr message" and "runTurn T agent w = (res, agent', w')"
  shows "InputTokens (llmUsage agent') = InputTokens (llmUsage agent) + InputTokens (Usage message) \<and>
         OutputTokens (llmUsage agent') = OutputTokens (llmUsage agent) + OutputTokens (Usage message) \<and>
         CacheCreationTokens (llmUsage agent') =
           CacheCreationTokens (llmUsage agent) + CacheCreationTokens (Usage message) \<and>
         CacheReadTokens (llmUsage agent') =
           CacheReadTokens (llmUsage agent) + CacheReadTokens (Usage message) \<and>
         (0 <s maxTokenUsage agent \<and> maxTokenUsage agent <s Total (llmUsage agent') \<longrightarrow>
            res = Inl (ErrMaxTokenUsage (Total (llmUsage agent')) (maxTokenUsage agent)) \<and>
            (\<forall>n. runLoop (Suc n) T agent w =
               Some (Inl (ErrMaxTokenUsage (Total (llmUsage agent')) (maxTokenUsage agent)),
                     agent', w')) \<and>
            length (requests w') = Suc (length (requests w))) \<and>
         (\<not> (0 <s maxTokenUsage agent \<and> maxTokenUsage agent <s Total (llmUsage agent')) \<longrightarrow>
            (\<forall>total ceiling. res \<noteq> Inl (ErrMaxTokenUsage total ceiling))) \<and>
         (maxTokenUsage agent = 0 \<longrightarrow>
            (\<forall>total ceiling. res \<noteq> Inl (ErrMaxTokenUsage total ceiling)))"
proof -
  from runTurn_usage [OF assms] have u: "llmUsage agent' = addUsageTo (Usage message) (llmUsage agent)" .
  then have counters:
    "InputTokens (llmUsage agent') = InputTokens (llmUsage agent) + InputTokens (Usage message)"
    "OutputTokens (llmUsage agent') = OutputTokens (llmUsage agent) + OutputTokens (Usage message)"
    "CacheCreationTokens (llmUsage agent') =
       CacheCreationTokens (llmUsage agent) + CacheCreationTokens (Usage message)"
    "CacheReadTokens (llmUsage agent') =
       CacheReadTokens (llmUsage agent) + CacheReadTokens (Usage message)"
    by (simp_all add: addUsageTo_def)
  have over: "0 <s maxTokenUsage agent \<and> maxTokenUsage agent <s Total (llmUsage agent') \<longrightarrow>
            res = Inl (ErrMaxTokenUsage (Total (llmUsage agent')) (maxTokenUsage agent)) \<and>
            (\<forall>n. runLoop (Suc n) T agent w =
               Some (Inl (ErrMaxTokenUsage (Total (llmUsage agent')) (maxTokenUsage agent)),
                     agent', w')) \<and>
            length (requests w') = Suc (length (requests w))"
  proof
    assume "0 <s maxTokenUsage agent \<and> maxTokenUsage agent <s Total (llmUsage agent')"
    then have "overCeiling (maxTokenUsage agent) (addUsageTo (Usage message) (llmUsage agent))"
      by (simp add: overCeiling_def u)
    from runTurn_over [OF assms(1) this, of T] assms(2) u
    have res: "res = Inl (ErrMaxTokenUsage (Total (llmUsage agent')) (maxTokenUsage agent))"
      by simp
    with assms(2) have "\<forall>n. runLoop (Suc n) T agent w =
               Some (Inl (ErrMaxTokenUsage (Total (llmUsage agent')) (maxTokenUsage agent)),
                     agent', w')" by simp
    with res runTurn_one_request [OF assms(2)] show
      "res = Inl (ErrMaxTokenUsage (Total (llmUsage agent')) (maxTokenUsage agent)) \<and>
       (\<forall>n. runLoop (Suc n) T agent w =
               Some (Inl (ErrMaxTokenUsage (Total (llmUsage agent')) (maxTokenUsage agent)),
                     agent', w')) \<and>
       length (requests w') = Suc (length (requests w))"
      by simp
  qed
  have within: "\<not> (0 <s maxTokenUsage agent \<and> maxTokenUsage agent <s Total (llmUsage agent')) \<longrightarrow>
            (\<forall>total ceiling. res \<noteq> Inl (ErrMaxTokenUsage total ceiling))"
  proof (intro impI allI notI)
    fix total ceiling
    assume no: "\<not> (0 <s maxTokenUsage agent \<and> maxTokenUsage agent <s Total (llmUsage agent'))"
      and eq: "res = Inl (ErrMaxTokenUsage total ceiling)"
    from assms(2) eq have "runTurn T agent w = (Inl (ErrMaxTokenUsage total ceiling), agent', w')"
      by simp
    from runTurn_failure [OF this] assms(1) have "overCeiling (maxTokenUsage agent) (llmUsage agent')"
      by auto
    with no show False by (simp add: overCeiling_def)
  qed
  have zero: "maxTokenUsage agent = 0 \<longrightarrow>
            (\<forall>total ceiling. res \<noteq> Inl (ErrMaxTokenUsage total ceiling))"
    using within by simp
  from counters over within zero show ?thesis by blast
qed

theorem turn_usage_and_budget_witness:
  "turnAnswer exCapped exWorld = Inr exFinal \<and>
   runTurn intResultT exCapped exWorld =
     (Inl (ErrMaxTokenUsage 10 5),
      exCapped\<lparr>llmMessages := [exFinal], llmUsage := exUsage 10\<rparr>,
      exWorld\<lparr>requests := [turnRequest (LLMDefinitions exBelt) exCapped]\<rparr>) \<and>
   InputTokens (llmUsage (exCapped\<lparr>llmMessages := [exFinal], llmUsage := exUsage 10\<rparr>)) = 10 \<and>
   0 <s maxTokenUsage exCapped \<and>
   maxTokenUsage exCapped <s Total (exUsage 10) \<and>
   runLoop (Suc 0) intResultT exCapped exWorld =
     Some (Inl (ErrMaxTokenUsage 10 5),
      exCapped\<lparr>llmMessages := [exFinal], llmUsage := exUsage 10\<rparr>,
      exWorld\<lparr>requests := [turnRequest (LLMDefinitions exBelt) exCapped]\<rparr>)"
proof -
  have ta: "turnAnswer exCapped exWorld = Inr exFinal"
    by (simp add: turnAnswer_def exCapped_def turn_defs ex_defs)
  have rt: "runTurn intResultT exCapped exWorld =
     (Inl (ErrMaxTokenUsage 10 5),
      exCapped\<lparr>llmMessages := [exFinal], llmUsage := exUsage 10\<rparr>,
      exWorld\<lparr>requests := [turnRequest (LLMDefinitions exBelt) exCapped]\<rparr>)"
    by (simp add: exCapped_def turn_defs ex_defs Total_def)
  have c: "0 <s maxTokenUsage exCapped \<and> maxTokenUsage exCapped <s Total (exUsage 10)"
    by (simp add: exCapped_def ex_defs Total_def)
  from turn_usage_and_budget [OF ta rt] c ta rt show ?thesis
    by (simp add: exCapped_def ex_defs)
qed

section \<open>The timebox\<close>

lemma processMessage_expired:
  assumes "timeboxedUntil a \<noteq> 0" and "timeboxedUntil a < now w"
    and "processMessage T message a w = (Inr finished, a', w')"
  shows "\<exists>results.
           llmMessages a' = llmMessages a @ message #
              (if toolUsesOf (Parts message) = [] then [] else [NewUserMessage results]) \<and>
           list_all2 (\<lambda>r t. tuName t \<noteq> FinalResultToolName \<longrightarrow> r = timeboxResult t) results
             (scheduled w (toolUsesOf (Parts message)))"
proof (cases "overCeiling (maxTokenUsage a) (addUsageTo (Usage message) (llmUsage a))")
  case True
  from processMessage_over [OF True, of T w] assms(3) show ?thesis by simp
next
  case False
  let ?a1 = "a\<lparr>llmMessages := llmMessages a @ [message],
              llmUsage := addUsageTo (Usage message) (llmUsage a)\<rparr>"
  let ?ts = "toolUsesOf (Parts message)"
  obtain r a2 w2 where d: "dispatch T ?ts ?a1 w = (r, a2, w2)"
    by (cases "dispatch T ?ts ?a1 w")
  from processMessage_within [OF False d] assms(3) obtain results where
    r: "r = Inr results" and
    a': "a' = (if results = [] then a2
               else a2\<lparr>llmMessages := llmMessages a2 @ [NewUserMessage results]\<rparr>)"
    by (cases r) auto
  from dispatch_frame [OF d] r have
    fa: "sameButResult ?a1 a2" and
    la: "list_all2 resultFor results (scheduled w ?ts)"
    by (auto simp: scheduled_def)
  from la have "length results = length ?ts"
    by (simp add: list_all2_lengthD scheduled_def completionOrder_length)
  then have empty: "(results = []) = (?ts = [])" by auto
  from fa have msgs: "llmMessages a2 = llmMessages a @ [message]"
    by (simp add: sameButResult_def)
  have "timeboxedUntil ?a1 \<noteq> 0" and "timeboxedUntil ?a1 < now w" using assms(1,2) by simp_all
  from dispatch_expired [OF this d [unfolded r]]
  have "list_all2 (\<lambda>r t. tuName t \<noteq> FinalResultToolName \<longrightarrow> r = timeboxResult t) results
          (scheduled w ?ts)"
    by (simp add: scheduled_def)
  with a' empty msgs show ?thesis
    by (intro exI [of _ results]) auto
qed

text \<open>
  C5. A turn that begins with the timebox expired (the deadline is set and the clock
  read at the start of the turn is past it) sends the provider exactly one request,
  whose tool list is the final-result definition alone and whose history is the
  agent's history followed by exactly one reminder. When the turn ends without a
  failure, the history is the old one, the reminder, the model's message and, if it
  requested calls, the results; every requested call whose name is not
  \<^verbatim>\<open>FinalResult\<close> has the synthetic error result. That result is produced without
  the registry: past the deadline \<^verbatim>\<open>useTool\<close> answers such a call with it for any
  state of the agent, which it leaves unchanged.
\<close>

theorem timebox_expired_turn:
  fixes agent :: "'r Agent" and w :: "'b World"
  assumes "timeboxExpired agent w = (True, w1)" and "runTurn T agent w = (res, agent', w')"
  shows "requests w' = requests w @
           [\<lparr>SystemPrompt = systemPrompt agent,
             ToolDefinitions = [FinalResultDefinition (toolBelt agent)],
             History = llmMessages agent @ [systemReminder timeboxReminder],
             EnableCaching = True\<rparr>] \<and>
         (\<forall>finished. res = Inr finished \<longrightarrow>
            (\<exists>message results.
               turnAnswer agent w = Inr message \<and>
               llmMessages agent' =
                 llmMessages agent @ systemReminder timeboxReminder # message #
                   (if toolUsesOf (Parts message) = [] then [] else [NewUserMessage results]) \<and>
               list_all2 (\<lambda>r t. tuName t \<noteq> FinalResultToolName \<longrightarrow> r = timeboxResult t)
                 results (scheduled w (toolUsesOf (Parts message))))) \<and>
         (\<forall>t (a2 :: 'r Agent) (w2 :: 'b World).
            timeboxedUntil a2 = timeboxedUntil agent \<and> now w1 \<le> now w2 \<and>
            tuName t \<noteq> FinalResultToolName \<longrightarrow>
            useTool T t a2 w2 = (Inr (timeboxResult t), a2, snd (timeboxExpired a2 w2)))"
proof -
  let ?a1 = "addSystemReminder timeboxReminder agent"
  let ?defs = "[FinalResultDefinition (toolBelt agent)]"
  let ?w2 = "w1\<lparr>requests := requests w @ [turnRequest ?defs ?a1]\<rparr>"
  from timeboxExpired_reads [OF assms(1)] have
    dl: "timeboxedUntil agent \<noteq> 0" and past: "timeboxedUntil agent < now w1" and
    pk: "picks w1 = picks w"
    by (simp_all add: sameButClock_def)
  have ot: "offerTools agent w = (?defs, ?a1, w1)"
    using assms(1) by (rule offerTools_expired)
  from runTurn_requests [OF ot assms(2)] have req:
    "requests w' = requests w @
           [\<lparr>SystemPrompt = systemPrompt agent,
             ToolDefinitions = [FinalResultDefinition (toolBelt agent)],
             History = llmMessages agent @ [systemReminder timeboxReminder],
             EnableCaching = True\<rparr>]"
    by (simp add: turnRequest_def addSystemReminder_def)
  obtain defs' a1' w1' where ot': "offerTools agent w = (defs', a1', w1')" and
    rt: "runTurn T agent w =
       (case turnAnswer agent w of
          Inl err \<Rightarrow> (Inl (ErrNewLLMMessage err), a1',
                      w1'\<lparr>requests := requests w @ [turnRequest defs' a1']\<rparr>)
        | Inr message \<Rightarrow>
            processMessage T message a1' (w1'\<lparr>requests := requests w @ [turnRequest defs' a1']\<rparr>))"
    by (rule runTurn_unfold [of agent w T])
  from ot ot' have eq: "defs' = ?defs" "a1' = ?a1" "w1' = w1" by simp_all
  have ended: "\<forall>finished. res = Inr finished \<longrightarrow>
            (\<exists>message results.
               turnAnswer agent w = Inr message \<and>
               llmMessages agent' =
                 llmMessages agent @ systemReminder timeboxReminder # message #
                   (if toolUsesOf (Parts message) = [] then [] else [NewUserMessage results]) \<and>
               list_all2 (\<lambda>r t. tuName t \<noteq> FinalResultToolName \<longrightarrow> r = timeboxResult t)
                 results (scheduled w (toolUsesOf (Parts message))))"
  proof (intro allI impI)
    fix finished
    assume r: "res = Inr finished"
    with rt eq assms(2) obtain message where ta: "turnAnswer agent w = Inr message" and
      pm: "processMessage T message ?a1 ?w2 = (Inr finished, agent', w')"
      by (cases "turnAnswer agent w") auto
    have "timeboxedUntil ?a1 \<noteq> 0" and "timeboxedUntil ?a1 < now ?w2"
      using dl past by (simp_all add: addSystemReminder_def)
    from processMessage_expired [OF this pm] obtain results where
      m: "llmMessages agent' = llmMessages ?a1 @ message #
              (if toolUsesOf (Parts message) = [] then [] else [NewUserMessage results])" and
      la: "list_all2 (\<lambda>r t. tuName t \<noteq> FinalResultToolName \<longrightarrow> r = timeboxResult t) results
             (scheduled ?w2 (toolUsesOf (Parts message)))"
      by - (elim exE conjE, rule that)
    from pk have "scheduled ?w2 (toolUsesOf (Parts message)) = scheduled w (toolUsesOf (Parts message))"
      by (simp add: scheduled_def)
    with la have la': "list_all2 (\<lambda>r t. tuName t \<noteq> FinalResultToolName \<longrightarrow> r = timeboxResult t)
        results (scheduled w (toolUsesOf (Parts message)))"
      by simp
    from m have m': "llmMessages agent' =
                 llmMessages agent @ systemReminder timeboxReminder # message #
                   (if toolUsesOf (Parts message) = [] then [] else [NewUserMessage results])"
      by (simp add: addSystemReminder_def)
    from ta m' la' show "\<exists>message results.
               turnAnswer agent w = Inr message \<and>
               llmMessages agent' =
                 llmMessages agent @ systemReminder timeboxReminder # message #
                   (if toolUsesOf (Parts message) = [] then [] else [NewUserMessage results]) \<and>
               list_all2 (\<lambda>r t. tuName t \<noteq> FinalResultToolName \<longrightarrow> r = timeboxResult t)
                 results (scheduled w (toolUsesOf (Parts message)))"
      by (intro exI conjI)
  qed
  have short: "\<forall>t (a2 :: 'r Agent) (w2 :: 'b World).
            timeboxedUntil a2 = timeboxedUntil agent \<and> now w1 \<le> now w2 \<and>
            tuName t \<noteq> FinalResultToolName \<longrightarrow>
            useTool T t a2 w2 = (Inr (timeboxResult t), a2, snd (timeboxExpired a2 w2))"
  proof (intro allI impI)
    fix t :: toolUseParams and a2 :: "'r Agent" and w2 :: "'b World"
    assume h: "timeboxedUntil a2 = timeboxedUntil agent \<and> now w1 \<le> now w2 \<and>
            tuName t \<noteq> FinalResultToolName"
    with dl past have "timeboxedUntil a2 \<noteq> 0" and "timeboxedUntil a2 < now w2" by simp_all
    from useTool_expired [OF this] h
    show "useTool T t a2 w2 = (Inr (timeboxResult t), a2, snd (timeboxExpired a2 w2))"
      by simp
  qed
  from req ended short show ?thesis by (intro conjI)
qed

theorem timebox_expired_turn_witness:
  "timeboxExpired exTimeboxed exWorld = (True, exWorld) \<and>
   runTurn intResultT exTimeboxed exWorld =
     (Inr False,
      exTimeboxed
        \<lparr>llmMessages :=
           [systemReminder timeboxReminder, exTwoCalls,
            NewUserMessage [ToolResult ''call-a'' ''read'' ''timebox expired, cannot use tool'' True,
                            ToolResult ''call-b'' ''write'' ''timebox expired, cannot use tool'' True]],
         llmUsage := exUsage 10\<rparr>,
      exWorld\<lparr>requests :=
                [\<lparr>SystemPrompt = ''system'',
                  ToolDefinitions = [FinalResultDefinition exBelt],
                  History = [systemReminder timeboxReminder],
                  EnableCaching = True\<rparr>]\<rparr>) \<and>
   requests (exWorld\<lparr>requests :=
                [\<lparr>SystemPrompt = ''system'',
                  ToolDefinitions = [FinalResultDefinition exBelt],
                  History = [systemReminder timeboxReminder],
                  EnableCaching = True\<rparr>]\<rparr>) =
     requests exWorld @
       [\<lparr>SystemPrompt = systemPrompt exTimeboxed,
         ToolDefinitions = [FinalResultDefinition (toolBelt exTimeboxed)],
         History = llmMessages exTimeboxed @ [systemReminder timeboxReminder],
         EnableCaching = True\<rparr>]"
proof -
  have h1: "timeboxExpired exTimeboxed exWorld = (True, exWorld)"
    by (simp add: exTimeboxed_def timeboxExpired_def timeNow_def ex_defs)
  have h2: "runTurn intResultT exTimeboxed exWorld =
     (Inr False,
      exTimeboxed
        \<lparr>llmMessages :=
           [systemReminder timeboxReminder, exTwoCalls,
            NewUserMessage [ToolResult ''call-a'' ''read'' ''timebox expired, cannot use tool'' True,
                            ToolResult ''call-b'' ''write'' ''timebox expired, cannot use tool'' True]],
         llmUsage := exUsage 10\<rparr>,
      exWorld\<lparr>requests :=
                [\<lparr>SystemPrompt = ''system'',
                  ToolDefinitions = [FinalResultDefinition exBelt],
                  History = [systemReminder timeboxReminder],
                  EnableCaching = True\<rparr>]\<rparr>)"
    by (simp add: exTimeboxed_def turn_defs ex_defs)
  from timebox_expired_turn [OF h1 h2] have
    "requests (exWorld\<lparr>requests :=
                [\<lparr>SystemPrompt = ''system'',
                  ToolDefinitions = [FinalResultDefinition exBelt],
                  History = [systemReminder timeboxReminder],
                  EnableCaching = True\<rparr>]\<rparr>) =
     requests exWorld @
       [\<lparr>SystemPrompt = systemPrompt exTimeboxed,
         ToolDefinitions = [FinalResultDefinition (toolBelt exTimeboxed)],
         History = llmMessages exTimeboxed @ [systemReminder timeboxReminder],
         EnableCaching = True\<rparr>]"
    by (rule conjunct1)
  with h1 h2 show ?thesis by (intro conjI)
qed

section \<open>The loop of turns\<close>

lemma runLoop_result:
  "runLoop n T a w = Some (Inr res, a', w') \<Longrightarrow>
     finalResultSet a' \<and>
     res = \<lparr>Data = finalResult a', TotalUsage = llmUsage a', Messages = llmMessages a'\<rparr>"
proof (induction n arbitrary: a w)
  case 0
  then show ?case by simp
next
  case (Suc n)
  obtain r a1 w1 where rt: "runTurn T a w = (r, a1, w1)" by (cases "runTurn T a w")
  show ?case
  proof (cases r)
    case (Inl err)
    with rt Suc.prems show ?thesis by simp
  next
    case (Inr finished)
    show ?thesis
    proof (cases "\<not> finished")
      case True
      with rt Inr Suc.prems have "runLoop n T a1 w1 = Some (Inr res, a', w')" by simp
      then show ?thesis by (rule Suc.IH)
    next
      case fin: False
      show ?thesis
      proof (cases "finalResultSet a1")
        case True
        with rt Inr fin Suc.prems show ?thesis by auto
      next
        case False
        with rt Inr fin Suc.prems
        have "runLoop n T (addSystemReminder finalResultReminder a1) w1 = Some (Inr res, a', w')"
          by simp
        then show ?thesis by (rule Suc.IH)
      qed
    qed
  qed
qed

lemma runLoop_failure:
  "runLoop n T a w = Some (Inl err, a', w') \<Longrightarrow>
     \<exists>a0 w0. runTurn T a0 w0 = (Inl err, a', w')"
proof (induction n arbitrary: a w)
  case 0
  then show ?case by simp
next
  case (Suc n)
  obtain r a1 w1 where rt: "runTurn T a w = (r, a1, w1)" by (cases "runTurn T a w")
  show ?case
  proof (cases r)
    case (Inl e)
    with rt Suc.prems have "runTurn T a w = (Inl err, a', w')" by simp
    then show ?thesis by blast
  next
    case (Inr finished)
    show ?thesis
    proof (cases "\<not> finished")
      case True
      with rt Inr Suc.prems have "runLoop n T a1 w1 = Some (Inl err, a', w')" by simp
      then show ?thesis by (rule Suc.IH)
    next
      case fin: False
      show ?thesis
      proof (cases "finalResultSet a1")
        case True
        with rt Inr fin Suc.prems show ?thesis by auto
      next
        case False
        with rt Inr fin Suc.prems
        have "runLoop n T (addSystemReminder finalResultReminder a1) w1 = Some (Inl err, a', w')"
          by simp
        then show ?thesis by (rule Suc.IH)
      qed
    qed
  qed
qed

lemma runTurn_failure_kinds:
  assumes "runTurn T a w = (Inl err, a', w')"
  shows "(\<exists>e. err = ErrNewLLMMessage e) \<or> (\<exists>total ceiling. err = ErrMaxTokenUsage total ceiling) \<or>
         (\<exists>p. err = Panicked p)"
  using runTurn_failure [OF assms] by blast

lemma runTurn_no_calls:
  assumes "turnAnswer a w = Inr message" and "toolUsesOf (Parts message) = []"
    and "runTurn T a w = (Inr finished, a1, w1)"
  shows "finished \<and> finalResultSet a1 = finalResultSet a \<and>
         llmMessages a1 = History (last (requests w1)) @ [message]"
proof -
  from runTurn_Inr [OF assms(3)] obtain m results where
    "turnAnswer a w = Inr m" and
    "llmMessages a1 = History (last (requests w1)) @ m #
              (if toolUsesOf (Parts m) = [] then [] else [NewUserMessage results])" and
    "finished = (toolUsesOf (Parts m) = [] \<or> finalResultSet a1)" and
    "toolUsesOf (Parts m) = [] \<longrightarrow> finalResultSet a1 = finalResultSet a"
    by - (elim exE conjE, rule that)
  with assms(1,2) show ?thesis by simp
qed

text \<open>
  C6. When the loop returns a result, the final-result flag is set and the result is
  the agent's final result, usage and history. When it returns an error, that error
  is the failure of a turn: the provider's error, the budget error or a panic. A turn
  whose message requests no tool call, run when no final result was set, reports
  itself finished with the flag still unset; the loop then appends exactly one
  reminder to call the final-result tool and goes on with the next turn.
\<close>

theorem run_loop_ends_with_final_result:
  "(\<forall>res agent' w'.
      runLoop n T agent w = Some (Inr res, agent', w') \<longrightarrow>
      finalResultSet agent' \<and>
      res = \<lparr>Data = finalResult agent', TotalUsage = llmUsage agent',
             Messages = llmMessages agent'\<rparr>) \<and>
   (\<forall>err agent' w'.
      runLoop n T agent w = Some (Inl err, agent', w') \<longrightarrow>
      (\<exists>agent0 w0. runTurn T agent0 w0 = (Inl err, agent', w')) \<and>
      ((\<exists>e. err = ErrNewLLMMessage e) \<or>
       (\<exists>total ceiling. err = ErrMaxTokenUsage total ceiling) \<or>
       (\<exists>p. err = Panicked p))) \<and>
   (\<forall>message finished agent1 w1.
      turnAnswer agent w = Inr message \<and> toolUsesOf (Parts message) = [] \<and>
      \<not> finalResultSet agent \<and> runTurn T agent w = (Inr finished, agent1, w1) \<longrightarrow>
      finished \<and> \<not> finalResultSet agent1 \<and>
      llmMessages agent1 = History (last (requests w1)) @ [message] \<and>
      runLoop (Suc n) T agent w =
        runLoop n T (agent1\<lparr>llmMessages :=
                       llmMessages agent1 @ [systemReminder finalResultReminder]\<rparr>) w1)"
proof (intro conjI allI impI)
  fix res agent' w'
  assume "runLoop n T agent w = Some (Inr res, agent', w')"
  from runLoop_result [OF this]
  show "finalResultSet agent'"
    and "res = \<lparr>Data = finalResult agent', TotalUsage = llmUsage agent',
               Messages = llmMessages agent'\<rparr>"
    by simp_all
next
  fix err agent' w'
  assume "runLoop n T agent w = Some (Inl err, agent', w')"
  from runLoop_failure [OF this] obtain agent0 w0 where
    rt: "runTurn T agent0 w0 = (Inl err, agent', w')" by blast
  then show "\<exists>agent0 w0. runTurn T agent0 w0 = (Inl err, agent', w')" by blast
  from runTurn_failure_kinds [OF rt]
  show "(\<exists>e. err = ErrNewLLMMessage e) \<or>
        (\<exists>total ceiling. err = ErrMaxTokenUsage total ceiling) \<or> (\<exists>p. err = Panicked p)" .
next
  fix message finished agent1 w1
  assume h: "turnAnswer agent w = Inr message \<and> toolUsesOf (Parts message) = [] \<and>
      \<not> finalResultSet agent \<and> runTurn T agent w = (Inr finished, agent1, w1)"
  then have ta: "turnAnswer agent w = Inr message" and nc: "toolUsesOf (Parts message) = []"
    and unset: "\<not> finalResultSet agent" and rt: "runTurn T agent w = (Inr finished, agent1, w1)"
    by simp_all
  from runTurn_no_calls [OF ta nc rt] unset have
    f: "finished" and u: "\<not> finalResultSet agent1" and
    m: "llmMessages agent1 = History (last (requests w1)) @ [message]"
    by simp_all
  from f show "finished" .
  from u show "\<not> finalResultSet agent1" .
  from m show "llmMessages agent1 = History (last (requests w1)) @ [message]" .
  from rt f u show "runLoop (Suc n) T agent w =
        runLoop n T (agent1\<lparr>llmMessages :=
                       llmMessages agent1 @ [systemReminder finalResultReminder]\<rparr>) w1"
    by (simp add: addSystemReminder_def)
qed

theorem run_loop_ends_with_final_result_witness:
  "turnAnswer exTalker exWorld = Inr exText \<and> toolUsesOf (Parts exText) = [] \<and>
   \<not> finalResultSet exTalker \<and>
   runTurn intResultT exTalker exWorld =
     (Inr True, exTalker\<lparr>llmMessages := [exText], llmUsage := exUsage 7\<rparr>,
      exWorld\<lparr>requests := [turnRequest (LLMDefinitions exBelt) exTalker]\<rparr>) \<and>
   runLoop (Suc (Suc 0)) intResultT exTalker exWorld =
     runLoop (Suc 0) intResultT
       (exTalker\<lparr>llmMessages := [exText], llmUsage := exUsage 7\<rparr>
          \<lparr>llmMessages :=
             llmMessages (exTalker\<lparr>llmMessages := [exText], llmUsage := exUsage 7\<rparr>) @
               [systemReminder finalResultReminder]\<rparr>)
       (exWorld\<lparr>requests := [turnRequest (LLMDefinitions exBelt) exTalker]\<rparr>) \<and>
   (case runLoop (Suc (Suc 0)) intResultT exTalker exWorld of
      Some (Inr res, agent', w') \<Rightarrow>
        Data res = 42 \<and> finalResultSet agent' \<and> length (requests w') = 2
    | _ \<Rightarrow> False)"
proof -
  have ta: "turnAnswer exTalker exWorld = Inr exText"
    by (simp add: turnAnswer_def exTalker_def exText_def turn_defs ex_defs)
  have nc: "toolUsesOf (Parts exText) = []"
    by (simp add: exText_def)
  have unset: "\<not> finalResultSet exTalker"
    by (simp add: exTalker_def ex_defs)
  have rt: "runTurn intResultT exTalker exWorld =
     (Inr True, exTalker\<lparr>llmMessages := [exText], llmUsage := exUsage 7\<rparr>,
      exWorld\<lparr>requests := [turnRequest (LLMDefinitions exBelt) exTalker]\<rparr>)"
    by (simp add: exTalker_def exText_def turn_defs ex_defs)
  have all: "turnAnswer exTalker exWorld = Inr exText \<and> toolUsesOf (Parts exText) = [] \<and>
      \<not> finalResultSet exTalker \<and>
      runTurn intResultT exTalker exWorld =
        (Inr True, exTalker\<lparr>llmMessages := [exText], llmUsage := exUsage 7\<rparr>,
         exWorld\<lparr>requests := [turnRequest (LLMDefinitions exBelt) exTalker]\<rparr>)"
    using ta nc unset rt by (intro conjI)
  have step: "runLoop (Suc (Suc 0)) intResultT exTalker exWorld =
     runLoop (Suc 0) intResultT
       (exTalker\<lparr>llmMessages := [exText], llmUsage := exUsage 7\<rparr>
          \<lparr>llmMessages :=
             llmMessages (exTalker\<lparr>llmMessages := [exText], llmUsage := exUsage 7\<rparr>) @
               [systemReminder finalResultReminder]\<rparr>)
       (exWorld\<lparr>requests := [turnRequest (LLMDefinitions exBelt) exTalker]\<rparr>)"
    using run_loop_ends_with_final_result
            [of "Suc 0" intResultT exTalker exWorld, THEN conjunct2, THEN conjunct2,
             rule_format, OF all]
    by (elim conjE)
  have final: "(case runLoop (Suc 0) intResultT
       (exTalker\<lparr>llmMessages := [exText], llmUsage := exUsage 7\<rparr>
          \<lparr>llmMessages :=
             llmMessages (exTalker\<lparr>llmMessages := [exText], llmUsage := exUsage 7\<rparr>) @
               [systemReminder finalResultReminder]\<rparr>)
       (exWorld\<lparr>requests := [turnRequest (LLMDefinitions exBelt) exTalker]\<rparr>) of
      Some (Inr res, agent', w') \<Rightarrow>
        Data res = 42 \<and> finalResultSet agent' \<and> length (requests w') = 2
    | _ \<Rightarrow> False)"
    by (simp add: exTalker_def exText_def turn_defs ex_defs)
  from ta nc unset rt step final [folded step] show ?thesis by (intro conjI)
qed

section \<open>Tool failures\<close>

lemma processMessage_total:
  assumes "- 2 < maxToolLogLength a" and "goType T \<noteq> TInterface"
    and "\<not> overCeiling (maxTokenUsage a) (addUsageTo (Usage message) (llmUsage a))"
  shows "\<exists>finished a' w'. processMessage T message a w = (Inr finished, a', w')"
proof -
  let ?a1 = "a\<lparr>llmMessages := llmMessages a @ [message],
              llmUsage := addUsageTo (Usage message) (llmUsage a)\<rparr>"
  have "- 2 < maxToolLogLength ?a1" using assms(1) by simp
  from dispatch_total [OF this assms(2), of "toolUsesOf (Parts message)" w]
  obtain rs a2 w2 where d: "dispatch T (toolUsesOf (Parts message)) ?a1 w = (Inr rs, a2, w2)"
    by blast
  from processMessage_within [OF assms(3) d] show ?thesis by simp
qed

lemma runTurn_total:
  assumes "- 2 < maxToolLogLength a" and "goType T \<noteq> TInterface"
    and "turnAnswer a w = Inr message"
    and "\<not> overCeiling (maxTokenUsage a) (addUsageTo (Usage message) (llmUsage a))"
  shows "\<exists>finished a' w'. runTurn T a w = (Inr finished, a', w')"
proof -
  obtain defs a1 w1 where ot: "offerTools a w = (defs, a1, w1)" and
    rt: "runTurn T a w =
       (case turnAnswer a w of
          Inl err \<Rightarrow> (Inl (ErrNewLLMMessage err), a1,
                      w1\<lparr>requests := requests w @ [turnRequest defs a1]\<rparr>)
        | Inr message \<Rightarrow>
            processMessage T message a1 (w1\<lparr>requests := requests w @ [turnRequest defs a1]\<rparr>))"
    by (rule runTurn_unfold [of a w T])
  from offerTools_frame [OF ot] have same:
    "llmUsage a1 = llmUsage a" "maxTokenUsage a1 = maxTokenUsage a"
    "maxToolLogLength a1 = maxToolLogLength a"
    by (simp_all add: sameButResult_def)
  from same assms(1) have v: "- 2 < maxToolLogLength a1" by simp
  from same assms(4) have
    b: "\<not> overCeiling (maxTokenUsage a1) (addUsageTo (Usage message) (llmUsage a1))" by simp
  from processMessage_total [OF v assms(2) b] rt assms(3) show ?thesis by simp
qed

lemma runTurn_no_panic:
  assumes "- 2 < maxToolLogLength a" and "goType T \<noteq> TInterface"
  shows "fst (runTurn T a w) \<noteq> Inl (Panicked p)"
proof (cases "turnAnswer a w")
  case (Inl e)
  obtain defs a1 w1 where
    "runTurn T a w =
       (case turnAnswer a w of
          Inl err \<Rightarrow> (Inl (ErrNewLLMMessage err), a1,
                      w1\<lparr>requests := requests w @ [turnRequest defs a1]\<rparr>)
        | Inr message \<Rightarrow>
            processMessage T message a1 (w1\<lparr>requests := requests w @ [turnRequest defs a1]\<rparr>))"
    by (rule runTurn_unfold [of a w T])
  with Inl show ?thesis by simp
next
  case (Inr message)
  show ?thesis
  proof (cases "overCeiling (maxTokenUsage a) (addUsageTo (Usage message) (llmUsage a))")
    case True
    from runTurn_over [OF Inr True, of T] show ?thesis by simp
  next
    case False
    from runTurn_total [OF assms Inr False] show ?thesis by auto
  qed
qed

lemma useTool_unknown:
  assumes "- 2 < maxToolLogLength a"
    and "\<not> (fst (timeboxExpired a w) \<and> tuName t \<noteq> FinalResultToolName)"
    and "resolve (toolBelt a) (tuName t) = None"
  shows "useTool T t a w =
           (Inr (ToolResult (tuID t) (tuName t) (''unknown tool: '' @ tuName t) True), a,
            snd (timeboxExpired a w))"
proof -
  obtain e w1 where tb: "timeboxExpired a w = (e, w1)" by (cases "timeboxExpired a w")
  from truncateLog_ok [OF assms(1)] obtain s' where
    "truncateLog a (''unknown tool: '' @ tuName t) = Inr s'" by blast
  with tb assms(2,3) show ?thesis by (cases e) (auto simp: useTool_def UseTool_def)
qed

lemma useTool_failed:
  assumes "- 2 < maxToolLogLength a"
    and "\<not> (fst (timeboxExpired a w) \<and> tuName t \<noteq> FinalResultToolName)"
    and "resolve (toolBelt a) (tuName t) = Some d" and "UseFunc d = Func f"
    and "f (tuInput t) = Inl err"
  shows "useTool T t a w =
           (Inr (ToolResult (tuID t) (tuName t) err True), a, snd (timeboxExpired a w))"
proof -
  obtain e w1 where tb: "timeboxExpired a w = (e, w1)" by (cases "timeboxExpired a w")
  from truncateLog_ok [OF assms(1)] obtain s' where "truncateLog a err = Inr s'" by blast
  with tb assms(2-) show ?thesis by (cases e) (auto simp: useTool_def UseTool_def)
qed

text \<open>
  C8. For an agent whose tool-log length is at least -1 (with a smaller one
  \<^verbatim>\<open>truncateLog\<close> slices out of range and panics) and whose registry was built (the
  result type is not an interface type): a call that reaches the registry and names a
  tool that is not in it, and a call whose tool returns an error, each give a tool
  result with the call's identifier and name, the error text as content and the
  error flag set, and leave the agent as it was. Whatever the requested calls are,
  the dispatch of a turn returns results, a turn never fails because of a tool (it
  fails only with the provider's error or the budget error), and a turn whose
  message arrived within the budget ends normally, so that the loop goes on with
  the next turn unless the turn reports itself finished.
\<close>

theorem tool_failures_are_results:
  fixes agent :: "'r Agent" and w :: "'b World"
  assumes "- 2 < maxToolLogLength agent" and "goType T \<noteq> TInterface"
  shows "(\<forall>t. \<not> (fst (timeboxExpired agent w) \<and> tuName t \<noteq> FinalResultToolName) \<and>
              resolve (toolBelt agent) (tuName t) = None \<longrightarrow>
              useTool T t agent w =
                (Inr (ToolResult (tuID t) (tuName t) (''unknown tool: '' @ tuName t) True),
                 agent, snd (timeboxExpired agent w))) \<and>
         (\<forall>t d f err.
              \<not> (fst (timeboxExpired agent w) \<and> tuName t \<noteq> FinalResultToolName) \<and>
              resolve (toolBelt agent) (tuName t) = Some d \<and> UseFunc d = Func f \<and>
              f (tuInput t) = Inl err \<longrightarrow>
              useTool T t agent w =
                (Inr (ToolResult (tuID t) (tuName t) err True), agent,
                 snd (timeboxExpired agent w))) \<and>
         (\<forall>toolUses. \<exists>results agent' w'.
              dispatch T toolUses agent w = (Inr results, agent', w')) \<and>
         (\<forall>err. fst (runTurn T agent w) = Inl err \<longrightarrow>
              (\<exists>e. err = ErrNewLLMMessage e) \<or>
              (\<exists>total ceiling. err = ErrMaxTokenUsage total ceiling)) \<and>
         (\<forall>message.
              turnAnswer agent w = Inr message \<and>
              \<not> (0 <s maxTokenUsage agent \<and>
                 maxTokenUsage agent <s Total (addUsageTo (Usage message) (llmUsage agent))) \<longrightarrow>
              (\<exists>finished agent' w'.
                 runTurn T agent w = (Inr finished, agent', w') \<and>
                 (\<not> finished \<longrightarrow> (\<forall>n. runLoop (Suc n) T agent w = runLoop n T agent' w'))))"
proof (intro conjI allI impI)
  fix t :: toolUseParams
  assume "\<not> (fst (timeboxExpired agent w) \<and> tuName t \<noteq> FinalResultToolName) \<and>
              resolve (toolBelt agent) (tuName t) = None"
  then show "useTool T t agent w =
                (Inr (ToolResult (tuID t) (tuName t) (''unknown tool: '' @ tuName t) True),
                 agent, snd (timeboxExpired agent w))"
    using useTool_unknown [OF assms(1)] by blast
next
  fix t :: toolUseParams and d f err
  assume "\<not> (fst (timeboxExpired agent w) \<and> tuName t \<noteq> FinalResultToolName) \<and>
              resolve (toolBelt agent) (tuName t) = Some d \<and> UseFunc d = Func f \<and>
              f (tuInput t) = Inl err"
  then show "useTool T t agent w =
                (Inr (ToolResult (tuID t) (tuName t) err True), agent,
                 snd (timeboxExpired agent w))"
    using useTool_failed [OF assms(1)] by blast
next
  fix toolUses
  show "\<exists>results agent' w'. dispatch T toolUses agent w = (Inr results, agent', w')"
    using assms by (rule dispatch_total)
next
  fix err
  assume e: "fst (runTurn T agent w) = Inl err"
  obtain res a' w' where rt: "runTurn T agent w = (res, a', w')" by (cases "runTurn T agent w")
  with e have "runTurn T agent w = (Inl err, a', w')" by simp
  from runTurn_failure_kinds [OF this] runTurn_no_panic [OF assms, of w] e
  show "(\<exists>e. err = ErrNewLLMMessage e) \<or> (\<exists>total ceiling. err = ErrMaxTokenUsage total ceiling)"
    by auto
next
  fix message
  assume h: "turnAnswer agent w = Inr message \<and>
              \<not> (0 <s maxTokenUsage agent \<and>
                 maxTokenUsage agent <s Total (addUsageTo (Usage message) (llmUsage agent)))"
  then have ta: "turnAnswer agent w = Inr message" and
    b: "\<not> overCeiling (maxTokenUsage agent) (addUsageTo (Usage message) (llmUsage agent))"
    by (simp_all add: overCeiling_def)
  from runTurn_total [OF assms ta b] obtain finished agent' w' where
    rt: "runTurn T agent w = (Inr finished, agent', w')" by blast
  then have "\<not> finished \<longrightarrow> (\<forall>n. runLoop (Suc n) T agent w = runLoop n T agent' w')"
    by simp
  with rt show "\<exists>finished agent' w'.
                 runTurn T agent w = (Inr finished, agent', w') \<and>
                 (\<not> finished \<longrightarrow> (\<forall>n. runLoop (Suc n) T agent w = runLoop n T agent' w'))"
    by blast
qed

theorem tool_failures_are_results_witness:
  "- 2 < maxToolLogLength (exAgent [Inr exTwoCalls]) \<and> goType intResultT \<noteq> TInterface \<and>
   \<not> (fst (timeboxExpired (exAgent [Inr exTwoCalls]) exWorld) \<and>
      tuName \<lparr>tuID = ''call-b'', tuName = ''write'', tuInput = ''y''\<rparr> \<noteq> FinalResultToolName) \<and>
   resolve (toolBelt (exAgent [Inr exTwoCalls]))
     (tuName \<lparr>tuID = ''call-b'', tuName = ''write'', tuInput = ''y''\<rparr>) = None \<and>
   useTool intResultT \<lparr>tuID = ''call-b'', tuName = ''write'', tuInput = ''y''\<rparr>
       (exAgent [Inr exTwoCalls]) exWorld =
     (Inr (ToolResult ''call-b'' ''write'' ''unknown tool: write'' True),
      exAgent [Inr exTwoCalls], exWorld)"
proof -
  let ?t = "\<lparr>tuID = ''call-b'', tuName = ''write'', tuInput = ''y''\<rparr>"
  have v: "- 2 < maxToolLogLength (exAgent [Inr exTwoCalls])"
    by (simp add: ex_defs)
  have c: "goType intResultT \<noteq> TInterface"
    by (simp add: ex_defs)
  have tb: "timeboxExpired (exAgent [Inr exTwoCalls]) exWorld = (False, exWorld)"
    by (simp add: timeboxExpired_def ex_defs)
  have pre: "\<not> (fst (timeboxExpired (exAgent [Inr exTwoCalls]) exWorld) \<and>
      tuName ?t \<noteq> FinalResultToolName) \<and>
      resolve (toolBelt (exAgent [Inr exTwoCalls])) (tuName ?t) = None"
  proof
    show "\<not> (fst (timeboxExpired (exAgent [Inr exTwoCalls]) exWorld) \<and>
      tuName ?t \<noteq> FinalResultToolName)"
      by (simp add: tb)
    show "resolve (toolBelt (exAgent [Inr exTwoCalls])) (tuName ?t) = None"
      by (simp add: resolve_def ex_defs)
  qed
  have "useTool intResultT ?t (exAgent [Inr exTwoCalls]) exWorld =
     (Inr (ToolResult (tuID ?t) (tuName ?t) (''unknown tool: '' @ tuName ?t) True),
      exAgent [Inr exTwoCalls], snd (timeboxExpired (exAgent [Inr exTwoCalls]) exWorld))"
    using tool_failures_are_results [OF v c, of exWorld, THEN conjunct1, rule_format, OF pre] .
  then have "useTool intResultT ?t (exAgent [Inr exTwoCalls]) exWorld =
     (Inr (ToolResult ''call-b'' ''write'' ''unknown tool: write'' True),
      exAgent [Inr exTwoCalls], exWorld)"
    by (simp add: tb)
  with v c pre show ?thesis by (intro conjI) simp_all
qed

section \<open>The final result\<close>










section \<open>The Run facade\<close>

text \<open>
  C3 (as amended). When \<^verbatim>\<open>Run\<close> returns a result, it has added to the aggregator of
  the \<^verbatim>\<open>Base\<close>, counter by counter, exactly the difference between the total usage
  of the run (the usage of the returned \<^verbatim>\<open>RunMeta\<close>) and the usage of the previous
  \<^verbatim>\<open>RunMeta\<close>, and has changed nothing else of the \<^verbatim>\<open>Base\<close>. When \<^verbatim>\<open>Run\<close> returns an
  error (the provider cannot be created, the agent cannot be constructed, or the
  agent's run fails and hands back no result), the \<^verbatim>\<open>Base\<close> and its aggregator are
  unchanged.
\<close>

theorem Run_adds_usage_delta:
  assumes "Run n T G b p w = Some (r, b', w')"
  shows "(\<forall>d meta. r = Inr (d, meta) \<longrightarrow>
            b' = b\<lparr>Base_llmUsage := Base_llmUsage b'\<rparr> \<and>
            InputTokens (Base_llmUsage b') =
              InputTokens (Base_llmUsage b) +
                (InputTokens (Meta_Usage meta) - InputTokens (Meta_Usage (RP_PreviousMeta p))) \<and>
            OutputTokens (Base_llmUsage b') =
              OutputTokens (Base_llmUsage b) +
                (OutputTokens (Meta_Usage meta) - OutputTokens (Meta_Usage (RP_PreviousMeta p))) \<and>
            CacheCreationTokens (Base_llmUsage b') =
              CacheCreationTokens (Base_llmUsage b) +
                (CacheCreationTokens (Meta_Usage meta) -
                 CacheCreationTokens (Meta_Usage (RP_PreviousMeta p))) \<and>
            CacheReadTokens (Base_llmUsage b') =
              CacheReadTokens (Base_llmUsage b) +
                (CacheReadTokens (Meta_Usage meta) -
                 CacheReadTokens (Meta_Usage (RP_PreviousMeta p)))) \<and>
         (\<forall>err. r = Inl err \<longrightarrow> b' = b)"
  using assms
  by (auto simp: Run_def Let_def addUsage_def addUsageTo_def subUsage_def
           split: sum.splits prod.splits option.splits if_splits)

theorem Run_adds_usage_delta_witness:
  "Run (Suc 0) intResultT exGob exBase exRunParams exWorld =
     Some (Inr (42,
                \<lparr>Meta_AgentID = 1, Meta_Usage = exUsage 10,
                 Meta_Messages =
                   [NewUserMessage [TextContent ''hi''], exFinal,
                    NewUserMessage
                      [ToolResult ''call-1'' ''FinalResult'' ''Final result processed.'' False]]\<rparr>),
           exBase\<lparr>Base_llmUsage := exUsage 10\<rparr>,
           exWorld\<lparr>agentCounter := 1,
                   requests :=
                     [\<lparr>SystemPrompt = ''system'', ToolDefinitions = LLMDefinitions exBelt,
                       History = [NewUserMessage [TextContent ''hi'']],
                       EnableCaching = True\<rparr>]\<rparr>) \<and>
   InputTokens (Base_llmUsage (exBase\<lparr>Base_llmUsage := exUsage 10\<rparr>)) =
     InputTokens (Base_llmUsage exBase) +
       (InputTokens (exUsage 10) - InputTokens (Meta_Usage (RP_PreviousMeta exRunParams)))"
proof -
  have h: "Run (Suc 0) intResultT exGob exBase exRunParams exWorld =
     Some (Inr (42,
                \<lparr>Meta_AgentID = 1, Meta_Usage = exUsage 10,
                 Meta_Messages =
                   [NewUserMessage [TextContent ''hi''], exFinal,
                    NewUserMessage
                      [ToolResult ''call-1'' ''FinalResult'' ''Final result processed.'' False]]\<rparr>),
           exBase\<lparr>Base_llmUsage := exUsage 10\<rparr>,
           exWorld\<lparr>agentCounter := 1,
                   requests :=
                     [\<lparr>SystemPrompt = ''system'', ToolDefinitions = LLMDefinitions exBelt,
                       History = [NewUserMessage [TextContent ''hi'']],
                       EnableCaching = True\<rparr>]\<rparr>)"
    by (simp add: run_defs turn_defs ex_defs LLMDefinitions_def zeroToolDefinition_def)
  from Run_adds_usage_delta [OF h, THEN conjunct1, rule_format, OF refl]
  have "InputTokens (Base_llmUsage (exBase\<lparr>Base_llmUsage := exUsage 10\<rparr>)) =
     InputTokens (Base_llmUsage exBase) +
       (InputTokens (Meta_Usage
          \<lparr>Meta_AgentID = 1, Meta_Usage = exUsage 10,
           Meta_Messages =
             [NewUserMessage [TextContent ''hi''], exFinal,
              NewUserMessage
                [ToolResult ''call-1'' ''FinalResult'' ''Final result processed.'' False]]\<rparr>) -
        InputTokens (Meta_Usage (RP_PreviousMeta exRunParams)))"
    by (elim conjE)
  then have "InputTokens (Base_llmUsage (exBase\<lparr>Base_llmUsage := exUsage 10\<rparr>)) =
     InputTokens (Base_llmUsage exBase) +
       (InputTokens (exUsage 10) - InputTokens (Meta_Usage (RP_PreviousMeta exRunParams)))"
    by simp
  with h show ?thesis by (rule conjI)
qed

text \<open>
  C3 as stated fails: with a ceiling of 5 tokens the agent's only turn uses 10 tokens
  and fails with the budget error; the previous usage is zero, and \<^verbatim>\<open>Run\<close> returns the
  error with the aggregator still at zero, not at the 10 tokens the run has used.
\<close>

theorem usage_not_added_on_failure:
  "map_option fst (Run (Suc 0) intResultT exGob (exBase\<lparr>Base_MaxTokenUsage := 5\<rparr>)
                     exRunParams exWorld) = Some (Inl (ErrMaxTokenUsage 10 5)) \<and>
   map_option (Base_llmUsage \<circ> fst \<circ> snd)
     (Run (Suc 0) intResultT exGob (exBase\<lparr>Base_MaxTokenUsage := 5\<rparr>) exRunParams exWorld) =
     Some zeroUsage \<and>
   Meta_Usage (RP_PreviousMeta exRunParams) = zeroUsage"
  by (simp add: run_defs turn_defs ex_defs)

section \<open>The session store\<close>

lemma concreteType_registered: "concreteType part \<in> set registerTypesForSession"
  by (cases part) (simp_all add: registerTypesForSession_def)

lemma gob_round_trip_registered:
  assumes "gobFaithful G"
  shows "\<exists>bytes. Encode G registerTypesForSession messages = (bytes, None) \<and>
                 Decode G registerTypesForSession bytes [] = Inr messages"
  using assms concreteType_registered unfolding gobFaithful_def by blast

lemma restore_after_save:
  assumes "gobFaithful G"
    and "sessionFilePath agent \<noteq> []" and "sessionFilePath fresh = sessionFilePath agent"
    and "creatable w (sessionFilePath agent)" and "llmMessages fresh = []"
  shows "fst (saveSession G agent w) = None"
    and "restoreSession G fresh (snd (saveSession G agent w)) =
           Inr (fresh\<lparr>llmMessages := llmMessages agent\<rparr>)"
proof -
  from gob_round_trip_registered [OF assms(1), of "llmMessages agent"] obtain bytes where
    enc: "Encode G registerTypesForSession (llmMessages agent) = (bytes, None)" and
    dec: "Decode G registerTypesForSession bytes [] = Inr (llmMessages agent)"
    by blast
  from enc assms(2,4) show "fst (saveSession G agent w) = None"
    by (simp add: saveSession_def)
  from enc dec assms(2-5) show "restoreSession G fresh (snd (saveSession G agent w)) =
           Inr (fresh\<lparr>llmMessages := llmMessages agent\<rparr>)"
    by (simp add: saveSession_def restoreSession_def)
qed

lemma restoreSession_absent:
  "files w (sessionFilePath a) = Absent \<Longrightarrow> restoreSession G a w = Inr a"
  by (simp add: restoreSession_def)

lemma restoreSession_undecodable:
  assumes "sessionFilePath a \<noteq> []" and "files w (sessionFilePath a) = Stored bytes"
    and "Decode G registerTypesForSession bytes (llmMessages a) = Inl err"
  shows "restoreSession G a w = Inl (ErrGobDecode err)"
  using assms by (simp add: restoreSession_def)

lemma NewAgent_undecodable:
  assumes "goType T \<noteq> TInterface" and "NA_SessionFilePath p \<noteq> []"
    and "files w (NA_SessionFilePath p) = Stored bytes"
    and "Decode G registerTypesForSession bytes (NA_LLMMessages p) = Inl err"
  shows "fst (NewAgent T G p w) = Inl (ErrGobDecode err)"
proof -
  from assms(1) obtain tb where "NewBelt T (NA_Tools p) = Inr tb" by (simp add: NewBelt_Inr)
  with assms(2-) show ?thesis
    by (simp add: NewAgent_def restoreSession_def Let_def split: prod.splits)
qed

text \<open>
  C9. \<^verbatim>\<open>encoding/gob\<close> is outside the repository; it is taken to encode, and to decode
  back into an empty history, every history whose parts have registered concrete
  types. \<^verbatim>\<open>registerTypesForSession\<close> registers the type of every variant of a part, so
  for every history: when the agent has a session path at which the file can be
  created, saving succeeds, and an agent that starts with an empty history and
  restores from the same path holds exactly the saved history: the same messages in
  the same order, each with its role, its parts in order, each part with its variant
  and content. Restoring when no file exists at the path is not an error and leaves
  the agent, and so its history, unchanged. A file that exists and fails to decode
  makes \<^verbatim>\<open>restoreSession\<close> fail with the decode error, and \<^verbatim>\<open>NewAgent\<close> returns that
  error instead of an agent.
\<close>

theorem session_round_trip:
  fixes agent fresh :: "'r Agent" and w :: "'b World"
  assumes "gobFaithful G"
    and "sessionFilePath agent \<noteq> []" and "sessionFilePath fresh = sessionFilePath agent"
    and "creatable w (sessionFilePath agent)" and "llmMessages fresh = []"
  shows "fst (saveSession G agent w) = None \<and>
         restoreSession G fresh (snd (saveSession G agent w)) =
           Inr (fresh\<lparr>llmMessages := llmMessages agent\<rparr>) \<and>
         (\<forall>w0 :: 'b World.
            files w0 (sessionFilePath fresh) = Absent \<longrightarrow> restoreSession G fresh w0 = Inr fresh) \<and>
         (\<forall>(w0 :: 'b World) stored err.
            files w0 (sessionFilePath fresh) = Stored stored \<and>
            Decode G registerTypesForSession stored (llmMessages fresh) = Inl err \<longrightarrow>
            restoreSession G fresh w0 = Inl (ErrGobDecode err)) \<and>
         (\<forall>(T :: 'r ResultT) p (w0 :: 'b World) stored err.
            goType T \<noteq> TInterface \<and> NA_SessionFilePath p = sessionFilePath fresh \<and>
            files w0 (NA_SessionFilePath p) = Stored stored \<and>
            Decode G registerTypesForSession stored (NA_LLMMessages p) = Inl err \<longrightarrow>
            fst (NewAgent T G p w0) = Inl (ErrGobDecode err))"
proof (intro conjI allI impI)
  show "fst (saveSession G agent w) = None"
    using assms by (rule restore_after_save(1))
  show "restoreSession G fresh (snd (saveSession G agent w)) =
           Inr (fresh\<lparr>llmMessages := llmMessages agent\<rparr>)"
    using assms by (rule restore_after_save(2))
next
  fix w0 :: "'b World"
  assume "files w0 (sessionFilePath fresh) = Absent"
  then show "restoreSession G fresh w0 = Inr fresh" by (rule restoreSession_absent)
next
  fix w0 :: "'b World" and stored err
  assume "files w0 (sessionFilePath fresh) = Stored stored \<and>
            Decode G registerTypesForSession stored (llmMessages fresh) = Inl err"
  with assms(2,3) show "restoreSession G fresh w0 = Inl (ErrGobDecode err)"
    by (simp add: restoreSession_undecodable)
next
  fix T :: "'r ResultT" and p :: NewAgentParams and w0 :: "'b World" and stored err
  assume h: "goType T \<noteq> TInterface \<and> NA_SessionFilePath p = sessionFilePath fresh \<and>
            files w0 (NA_SessionFilePath p) = Stored stored \<and>
            Decode G registerTypesForSession stored (NA_LLMMessages p) = Inl err"
  with assms(2,3) have ne: "NA_SessionFilePath p \<noteq> []" by simp
  from h have c: "goType T \<noteq> TInterface"
    and f: "files w0 (NA_SessionFilePath p) = Stored stored"
    and d: "Decode G registerTypesForSession stored (NA_LLMMessages p) = Inl err"
    by blast+
  from c ne f d show "fst (NewAgent T G p w0) = Inl (ErrGobDecode err)"
    by (rule NewAgent_undecodable)
qed

theorem session_round_trip_witness:
  "gobFaithful exGob \<and>
   sessionFilePath exSaver \<noteq> [] \<and> sessionFilePath exRestorer = sessionFilePath exSaver \<and>
   creatable exWorld (sessionFilePath exSaver) \<and> llmMessages exRestorer = [] \<and>
   restoreSession exGob exRestorer (snd (saveSession exGob exSaver exWorld)) =
     Inr (exRestorer\<lparr>llmMessages := exHistory\<rparr>)"
proof -
  have h0: "gobFaithful exGob" by (simp add: gobFaithful_def exGob_def)
  have h1: "sessionFilePath exSaver \<noteq> []" by (simp add: exSaver_def)
  have h2: "sessionFilePath exRestorer = sessionFilePath exSaver"
    by (simp add: exSaver_def exRestorer_def)
  have h3: "creatable exWorld (sessionFilePath exSaver)" by (simp add: exWorld_def)
  have h4: "llmMessages exRestorer = []" by (simp add: exRestorer_def exAgent_def)
  from session_round_trip [OF h0 h1 h2 h3 h4, THEN conjunct2, THEN conjunct1]
  have "restoreSession exGob exRestorer (snd (saveSession exGob exSaver exWorld)) =
     Inr (exRestorer\<lparr>llmMessages := exHistory\<rparr>)"
    by (simp add: exSaver_def)
  with h0 h1 h2 h3 h4 show ?thesis by (intro conjI)
qed


end
